theory Spec2Isabelle
  imports Complex_Main "HOL-Library.AList"
begin

section \<open>JavaScript values used by the form component\<close>

text \<open>
  A JavaScript string is the sequence of its UTF-16 code units; a code unit is a
  natural number. Property names and the texts of literals are written as HOL strings
  and converted with \<open>lit\<close>.
\<close>

type_synonym code_unit = nat
type_synonym jsstring = "code_unit list"

definition lit :: "string \<Rightarrow> jsstring" where
  "lit s = map of_char s"

text \<open>
  A JavaScript number is NaN, an infinity or a finite value. Only the comparison with
  zero and the identity of the value matter to the component.
\<close>

datatype jsnum = NaN | Fin real | PosInf | NegInf

fun lt_zero :: "jsnum \<Rightarrow> bool" where
  "lt_zero NaN = False"
| "lt_zero (Fin r) = (r < 0)"
| "lt_zero PosInf = False"
| "lt_zero NegInf = True"

datatype js_error = TypeError | RangeError

text \<open>
  The values a property of \<open>formData\<close> can hold: \<open>null\<close>, a number, a string
  (the union type of \<open>processedValue\<close> in \<open>handleInputChange\<close>) or an array of strings
  (\<open>skills\<close>). An object is the list of its own properties in insertion order; a
  property that is not in the list reads as \<open>undefined\<close>, which is \<open>None\<close>.
\<close>

datatype fval = FNull | FNum jsnum | FStr jsstring | FArr "jsstring list"

type_synonym jsobj = "(string \<times> fval) list"

text \<open>\<open>String.prototype.trim\<close>: white space and line terminators of ECMAScript.\<close>

definition is_ws :: "code_unit \<Rightarrow> bool" where
  "is_ws c \<longleftrightarrow>
     (9 \<le> c \<and> c \<le> 13) \<or> c = 32 \<or> c = 160 \<or> c = 5760 \<or> (8192 \<le> c \<and> c \<le> 8202) \<or>
     c = 8232 \<or> c = 8233 \<or> c = 8239 \<or> c = 8287 \<or> c = 12288 \<or> c = 65279"

definition trim :: "jsstring \<Rightarrow> jsstring" where
  "trim s = rev (dropWhile is_ws (rev (dropWhile is_ws s)))"

text \<open>
  \<open>String.prototype.split\<close> with a one-unit separator: \<open>cur\<close> is the piece being read.
  The empty string gives one empty piece.
\<close>

fun split_acc :: "code_unit \<Rightarrow> jsstring \<Rightarrow> jsstring \<Rightarrow> jsstring list" where
  "split_acc sep cur [] = [cur]"
| "split_acc sep cur (c # cs) =
     (if c = sep then cur # split_acc sep [] cs else split_acc sep (cur @ [c]) cs)"

definition split_js :: "code_unit \<Rightarrow> jsstring \<Rightarrow> jsstring list" where
  "split_js sep s = split_acc sep [] s"

definition comma :: code_unit where
  "comma = 44"

text \<open>\<open>Array.prototype.join\<close> with a one-unit separator.\<close>

fun join_js :: "code_unit \<Rightarrow> jsstring list \<Rightarrow> jsstring" where
  "join_js sep [] = []"
| "join_js sep [p] = p"
| "join_js sep (p # q # ps) = p @ sep # join_js sep (q # ps)"

text \<open>
  \<open>!v\<close> is \<open>\<not> truthy v\<close>: \<open>undefined\<close>, \<open>null\<close>, \<open>0\<close>, \<open>NaN\<close> and the empty string are
  falsy, every array is truthy.
\<close>

fun truthy :: "fval option \<Rightarrow> bool" where
  "truthy None = False"
| "truthy (Some FNull) = False"
| "truthy (Some (FNum n)) = (n \<noteq> NaN \<and> n \<noteq> Fin 0)"
| "truthy (Some (FStr s)) = (s \<noteq> [])"
| "truthy (Some (FArr a)) = True"

text \<open>
  \<open>Number(v)\<close>. The conversion of a string to a number is the parameter \<open>sn\<close>
  (StringToNumber of ECMAScript); an array converts through its \<open>join(",")\<close>.
\<close>

fun toNumber :: "(jsstring \<Rightarrow> jsnum) \<Rightarrow> fval option \<Rightarrow> jsnum" where
  "toNumber sn None = NaN"
| "toNumber sn (Some FNull) = Fin 0"
| "toNumber sn (Some (FNum n)) = n"
| "toNumber sn (Some (FStr s)) = sn s"
| "toNumber sn (Some (FArr a)) = sn (join_js comma a)"

text \<open>
  \<open>v.trim()\<close>: only a string has the method; on \<open>undefined\<close> and \<open>null\<close> the property
  read throws, on a number or an array the call does.
\<close>

fun trim_of :: "fval option \<Rightarrow> js_error + jsstring" where
  "trim_of (Some (FStr s)) = Inr (trim s)"
| "trim_of _ = Inl TypeError"

text \<open>
  \<open>v.length === 0\<close>: a string and an array have a length, a number has none
  (\<open>undefined === 0\<close> is false), \<open>undefined\<close> and \<open>null\<close> throw.
\<close>

fun length_is_0 :: "fval option \<Rightarrow> js_error + bool" where
  "length_is_0 None = Inl TypeError"
| "length_is_0 (Some FNull) = Inl TypeError"
| "length_is_0 (Some (FNum n)) = Inr False"
| "length_is_0 (Some (FStr s)) = Inr (s = [])"
| "length_is_0 (Some (FArr a)) = Inr (a = [])"

section \<open>The state of the component\<close>

text \<open>
  What the backend's JSON answer can hold in a field: absent (\<open>undefined\<close>), \<open>null\<close>,
  a boolean, a number, a string, or an array or object (\<open>JCompound\<close>, always truthy).
\<close>

datatype json = JUndefined | JNull | JBool bool | JNum jsnum | JStr jsstring | JCompound

fun json_truthy :: "json \<Rightarrow> bool" where
  "json_truthy JUndefined = False"
| "json_truthy JNull = False"
| "json_truthy (JBool b) = b"
| "json_truthy (JNum n) = (n \<noteq> NaN \<and> n \<noteq> Fin 0)"
| "json_truthy (JStr s) = (s \<noteq> [])"
| "json_truthy JCompound = True"

text \<open>\<open>a || b\<close>\<close>

definition js_or :: "json \<Rightarrow> json \<Rightarrow> json" where
  "js_or a b = (if json_truthy a then a else b)"

text \<open>
  The \<open>useState\<close> cells of \<open>App\<close>. A handler runs on the state it was rendered with, and
  its updates give the next state.
\<close>

record app =
  formData :: jsobj
  loading :: bool
  result :: json
  error :: json
  success :: jsstring
  copied :: bool
  formErrors :: "(string \<times> jsstring) list"
  rawResult :: json

section \<open>Form validation\<close>

text \<open>
  \<open>validateForm\<close> (lines 79 to 92): seven independent checks fill \<open>errors\<close>, which is
  stored in \<open>formErrors\<close>; the result is whether \<open>errors\<close> has no key. A check that
  throws ends the call before \<open>setFormErrors\<close>.
\<close>

text \<open>An exception ends the call: the rest runs only on a value.\<close>

definition or_throw :: "js_error + 'a \<Rightarrow> ('a \<Rightarrow> js_error + 'b) \<Rightarrow> js_error + 'b" where
  "or_throw m f = (case m of Inl e \<Rightarrow> Inl e | Inr x \<Rightarrow> f x)"

text \<open>\<open>if (c) errors[k] = m\<close>\<close>

definition set_if :: "bool \<Rightarrow> string \<Rightarrow> jsstring \<Rightarrow> (string \<times> jsstring) list
    \<Rightarrow> (string \<times> jsstring) list" where
  "set_if c k m errors = (if c then AList.update k m errors else errors)"

definition validateForm :: "(jsstring \<Rightarrow> jsnum) \<Rightarrow> app \<Rightarrow> js_error + (bool \<times> app)" where
  "validateForm sn st =
     (let fd = map_of (formData st) in
      or_throw (trim_of (fd ''job_title'')) (\<lambda>job_title.
      or_throw (trim_of (fd ''company_name'')) (\<lambda>company_name.
      or_throw (trim_of (fd ''location'')) (\<lambda>location.
      or_throw (length_is_0 (fd ''skills'')) (\<lambda>no_skills.
      let e0 = [];
          e1 = set_if (job_title = []) ''job_title'' (lit ''Job title is required'') e0;
          e2 = set_if (company_name = []) ''company_name''
                 (lit ''Company name is required'') e1;
          e3 = set_if (location = []) ''location'' (lit ''Location is required'') e2;
          e4 = set_if (\<not> truthy (fd ''workplace'')) ''workplace''
                 (lit ''Workplace type is required'') e3;
          e5 = set_if no_skills ''skills''
                 (lit ''At least one skill is required (comma-separated)'') e4;
          e6 = set_if (fd ''min_experience_years'' = Some (FStr []) \<or>
                       lt_zero (toNumber sn (fd ''min_experience_years'')))
                 ''min_experience_years''
                 (lit ''Valid minimum experience (0 or more) is required'') e5;
          errors = set_if (\<not> truthy (fd ''exp_level_category'')) ''exp_level_category''
                 (lit ''Experience level is required'') e6
      in Inr (errors = [], st\<lparr>formErrors := errors\<rparr>))))))"

section \<open>Input change handlers\<close>

text \<open>
  \<open>handleInputChange\<close> (lines 95 to 131). The event target gives \<open>name\<close>, \<open>value\<close> and
  \<open>type\<close>; \<open>parseFloat\<close> is the parameter \<open>pf\<close>. The computed key \<open>[name]\<close> replaces the
  property in place or appends it. \<open>formErrors[name]\<close> is truthy when the entry is a
  non-empty message. (It is truthy too for a name that \<open>Object.prototype\<close> defines, such
  as \<open>constructor\<close>; the copy of the errors then loses no entry, as in \<open>clear_error\<close>.)
\<close>

definition processedValue :: "(jsstring \<Rightarrow> jsnum) \<Rightarrow> string \<Rightarrow> jsstring \<Rightarrow> string \<Rightarrow> fval" where
  "processedValue pf name val type =
     (if type = ''number'' then
        (if name = ''min_salary'' \<or> name = ''max_salary'' then
           (if val = [] then FNull else FNum (pf val))
         else if name = ''min_experience_years'' then
           (if val = [] then FStr [] else FNum (pf val))
         else FNum (pf val))
      else FStr val)"

definition has_error :: "(string \<times> jsstring) list \<Rightarrow> string \<Rightarrow> bool" where
  "has_error errs k = (case map_of errs k of None \<Rightarrow> False | Some m \<Rightarrow> m \<noteq> [])"

definition clear_error :: "string \<Rightarrow> (string \<times> jsstring) list \<Rightarrow> (string \<times> jsstring) list" where
  "clear_error k errs = (if has_error errs k then AList.delete k errs else errs)"

definition handleInputChange :: "(jsstring \<Rightarrow> jsnum) \<Rightarrow> string \<Rightarrow> jsstring \<Rightarrow> string \<Rightarrow> app \<Rightarrow> app" where
  "handleInputChange pf name val type st =
     st\<lparr>formData := AList.update name (processedValue pf name val type) (formData st),
        formErrors := clear_error name (formErrors st)\<rparr>"

text \<open>\<open>handleSkillsChange\<close> (lines 133 to 151).\<close>

definition skillsArray :: "jsstring \<Rightarrow> jsstring list" where
  "skillsArray val = filter (\<lambda>skill. skill \<noteq> []) (map trim (split_js comma val))"

definition handleSkillsChange :: "jsstring \<Rightarrow> app \<Rightarrow> app" where
  "handleSkillsChange val st =
     st\<lparr>formData := AList.update ''skills'' (FArr (skillsArray val)) (formData st),
        formErrors := clear_error ''skills'' (formErrors st)\<rparr>"

section \<open>Submission\<close>

text \<open>
  The answer of \<open>fetch\<close> and \<open>response.json()\<close>: the request fails, or a response with a
  status code arrives whose body is not JSON, is \<open>null\<close>, or is a value whose five
  fields are read (a field that is absent, and every field of a JSON number, string,
  boolean or array, is \<open>JUndefined\<close>).
\<close>

record response_data =
  status :: json
  job_description :: json
  raw_description :: json
  message :: json
  detail :: json

datatype response_json = NotJson | NullJson | Data response_data

datatype fetch_outcome = NetworkError | Response nat response_json

text \<open>Decimal digits of a number, for the template literal.\<close>

fun digits :: "nat \<Rightarrow> nat \<Rightarrow> jsstring" where
  "digits 0 n = []"
| "digits (Suc fuel) n =
     (if n < 10 then [48 + n] else digits fuel (n div 10) @ [48 + n mod 10])"

definition decimal :: "nat \<Rightarrow> jsstring" where
  "decimal n = digits (Suc n) n"

definition catch_message :: jsstring where
  "catch_message = lit (''Failed to connect to the server. Please ensure the backend is '' @
     ''running and accessible at http://localhost:8000.'')"

text \<open>
  The \<open>try\<close> block after the request (lines 191 to 210): \<open>response.ok\<close> is a status from
  200 to 299; a failed request, a body that is not JSON and a property read on \<open>null\<close>
  all end in the \<open>catch\<close> block.
\<close>

definition handleResponse :: "fetch_outcome \<Rightarrow> app \<Rightarrow> app" where
  "handleResponse outcome st =
     (case outcome of
        NetworkError \<Rightarrow> st\<lparr>error := JStr catch_message\<rparr>
      | Response code NotJson \<Rightarrow> st\<lparr>error := JStr catch_message\<rparr>
      | Response code NullJson \<Rightarrow> st\<lparr>error := JStr catch_message\<rparr>
      | Response code (Data d) \<Rightarrow>
          if (200 \<le> code \<and> code \<le> 299) \<and> status d = JStr (lit ''success'') then
            st\<lparr>result := job_description d,
               rawResult := js_or (raw_description d) (job_description d),
               success := lit ''Job description generated successfully!''\<rparr>
          else
            st\<lparr>error := js_or (js_or (message d) (detail d))
                 (JStr (lit ''An error occurred (Status: '' @ decimal code @
                        lit ''). Please check inputs.''))\<rparr>)"

text \<open>The payload (lines 170 to 175): the form data with three properties replaced.\<close>

definition salary_or_0 :: "(jsstring \<Rightarrow> jsnum) \<Rightarrow> fval option \<Rightarrow> jsnum" where
  "salary_or_0 sn v = (if v = Some FNull then Fin 0 else toNumber sn v)"

definition payload :: "(jsstring \<Rightarrow> jsnum) \<Rightarrow> jsobj \<Rightarrow> jsobj" where
  "payload sn fd =
     AList.update ''min_experience_years''
       (FNum (toNumber sn (map_of fd ''min_experience_years'')))
       (AList.update ''max_salary'' (FNum (salary_or_0 sn (map_of fd ''max_salary'')))
          (AList.update ''min_salary'' (FNum (salary_or_0 sn (map_of fd ''min_salary''))) fd))"

text \<open>
  \<open>handleSubmit\<close> (lines 154 to 215). \<open>net\<close> is the network: what the request with a given
  payload is answered. The result is the state when the handler has finished and the
  payloads it has sent, in order.
\<close>

definition handleSubmit :: "(jsstring \<Rightarrow> jsnum) \<Rightarrow> (jsobj \<Rightarrow> fetch_outcome) \<Rightarrow> app
    \<Rightarrow> js_error + (app \<times> jsobj list)" where
  "handleSubmit sn net st =
     or_throw (validateForm sn st) (\<lambda>(valid, st1).
       if \<not> valid then Inr (st1, [])
       else
         let st2 = st1\<lparr>loading := True, error := JStr [], success := [],
                       result := JStr [], rawResult := JStr []\<rparr>;
             body = payload sn (formData st);
             st3 = handleResponse (net body) st2
         in Inr (st3\<lparr>loading := False\<rparr>, [body]))"

text \<open>
  \<open>handleCopyToClipboard\<close> (lines 218 to 230): nothing is written when \<open>rawResult\<close> is
  falsy; otherwise \<open>rawResult\<close> is written, and \<open>written\<close> tells whether the clipboard
  accepted it. The result is the state and the text handed to the clipboard. The timer
  that clears \<open>copied\<close> two seconds later is \<open>copied_timeout\<close>. The browser is taken to
  have a clipboard (\<open>navigator.clipboard\<close> is defined).
\<close>

definition handleCopyToClipboard :: "bool \<Rightarrow> app \<Rightarrow> app \<times> json option" where
  "handleCopyToClipboard written st =
     (if \<not> json_truthy (rawResult st) then (st, None)
      else if written then (st\<lparr>copied := True\<rparr>, Some (rawResult st))
      else (st\<lparr>error := JStr (lit ''Failed to copy text to clipboard.'')\<rparr>,
            Some (rawResult st)))"

definition copied_timeout :: "app \<Rightarrow> app" where
  "copied_timeout st = st\<lparr>copied := False\<rparr>"

section \<open>Dates and the default deadline\<close>

text \<open>
  A time value is a number of milliseconds since 1970-01-01T00:00:00Z. \<open>Day\<close> and
  \<open>TimeWithinDay\<close> are those of ECMAScript; \<open>civil_from_days\<close> gives year, month (from 1)
  and day of the month of a day number in the proleptic Gregorian calendar.
\<close>

definition msPerDay :: int where
  "msPerDay = 86400000"

definition Day :: "int \<Rightarrow> int" where
  "Day t = t div msPerDay"

definition TimeWithinDay :: "int \<Rightarrow> int" where
  "TimeWithinDay t = t mod msPerDay"

definition civil_from_days :: "int \<Rightarrow> int \<times> int \<times> int" where
  "civil_from_days days =
     (let z = days + 719468;
          era = z div 146097;
          doe = z - era * 146097;
          yoe = (doe - doe div 1460 + doe div 36524 - doe div 146096) div 365;
          y = yoe + era * 400;
          doy = doe - (365 * yoe + yoe div 4 - yoe div 100);
          mp = (5 * doy + 2) div 153;
          d = doy - (153 * mp + 2) div 5 + 1;
          m = (if mp < 10 then mp + 3 else mp - 9)
      in (if m \<le> 2 then y + 1 else y, m, d))"

text \<open>A number in at least \<open>w\<close> decimal digits, with leading zeros.\<close>

definition pad :: "nat \<Rightarrow> int \<Rightarrow> jsstring" where
  "pad w n = replicate (w - length (decimal (nat n))) 48 @ decimal (nat n)"

text \<open>
  The year of an ISO string: four digits from 0 to 9999, otherwise a sign and six
  digits.
\<close>

definition year_string :: "int \<Rightarrow> jsstring" where
  "year_string y =
     (if 0 \<le> y \<and> y \<le> 9999 then pad 4 y
      else if y < 0 then 45 # pad 6 (- y)
      else 43 # pad 6 y)"

definition date_string :: "int \<Rightarrow> jsstring" where
  "date_string day =
     (case civil_from_days day of (y, m, d) \<Rightarrow> year_string y @ 45 # pad 2 m @ 45 # pad 2 d)"

definition time_string :: "int \<Rightarrow> jsstring" where
  "time_string ms =
     pad 2 (ms div 3600000) @ 58 # pad 2 (ms div 60000 mod 60) @ 58 #
     pad 2 (ms div 1000 mod 60) @ 46 # pad 3 (ms mod 1000)"

text \<open>
  \<open>new Date(t).toISOString()\<close>: a time value beyond 8.64e15 milliseconds from the epoch
  makes an invalid date, on which \<open>toISOString\<close> throws a RangeError.
\<close>

definition toISOString :: "int \<Rightarrow> js_error + jsstring" where
  "toISOString t =
     (if \<bar>t\<bar> > 8640000000000000 then Inl RangeError
      else Inr (date_string (Day t) @ 84 # time_string (TimeWithinDay t) @ [90]))"

text \<open>\<open>s.split("T")[0]\<close>; \<open>split\<close> never gives an empty array.\<close>

definition before_T :: "jsstring \<Rightarrow> jsstring" where
  "before_T s = (case split_js 84 s of [] \<Rightarrow> [] | p # ps \<Rightarrow> p)"

text \<open>
  The object literal of \<open>useState\<close> (lines 38 to 54) and of \<open>handleResetForm\<close>
  (lines 234 to 252), which differ in \<open>deadline\<close> only.
\<close>

definition blank_form :: "jsstring \<Rightarrow> jsobj" where
  "blank_form deadline =
     [(''job_title'', FStr []),
      (''company_name'', FStr []),
      (''location'', FStr []),
      (''workplace'', FStr []),
      (''skills'', FArr []),
      (''min_experience_years'', FNum (Fin 0)),
      (''exp_level_category'', FStr []),
      (''min_salary'', FNull),
      (''max_salary'', FNull),
      (''deadline'', FStr deadline),
      (''notes'', FStr []),
      (''qualification_details'', FStr []),
      (''benefits_details'', FStr []),
      (''style_preference'', FStr (lit ''LinkedIn'')),
      (''output_length_preference'', FStr (lit ''Standard''))]"

definition initial :: app where
  "initial = \<lparr>formData = blank_form [], loading = False, result = JStr [], error = JStr [],
     success = [], copied = False, formErrors = [], rawResult = JStr []\<rparr>"

text \<open>
  The effect run on mount (lines 66 to 76), at time \<open>now\<close>. \<open>tza t u\<close> is the offset of
  local time at \<open>t\<close>, where \<open>t\<close> is a UTC time value if \<open>u\<close> and a local one otherwise
  (LocalTZA of ECMAScript). \<open>setDate(getDate() + 30)\<close> carries the day of the month
  beyond the end of the month, so the local time value moves forward by 30 days; the
  result is converted back to UTC.
\<close>

definition mount_effect :: "(int \<Rightarrow> bool \<Rightarrow> int) \<Rightarrow> int \<Rightarrow> app \<Rightarrow> js_error + app" where
  "mount_effect tza now st =
     (let today = now + tza now True;
          local = today + 30 * msPerDay;
          thirtyDaysFromNow = local - tza local False
      in or_throw (toISOString thirtyDaysFromNow) (\<lambda>iso.
           Inr (st\<lparr>formData := AList.update ''deadline'' (FStr (before_T iso)) (formData st)\<rparr>)))"

text \<open>\<open>handleResetForm\<close> (lines 232 to 260), at time \<open>now\<close>.\<close>

definition handleResetForm :: "int \<Rightarrow> app \<Rightarrow> js_error + app" where
  "handleResetForm now st =
     or_throw (toISOString (now + 30 * 24 * 60 * 60 * 1000)) (\<lambda>iso.
       Inr (st\<lparr>formData := blank_form (before_T iso), formErrors := [], result := JStr [],
               rawResult := JStr [], error := JStr [], success := [], copied := False\<rparr>))"

section \<open>The Term Emphasizer\<close>

text \<open>
  Modelled from the spec: the Term Emphasizer (section 4.4) and the outbound success
  shape (section 6) belong to the backend module, which is not among the sources. Every
  definition of this section follows the words of the spec.
\<close>

text \<open>
  Modelled from the spec: step 1 of the Term Emphasizer, which is missing. The candidate
  terms are the given terms (the skills, then any other configured keywords),
  case-folded, without the empty term and without duplicates.
\<close>

definition fold_case :: "code_unit \<Rightarrow> code_unit" where
  "fold_case c = (if 65 \<le> c \<and> c \<le> 90 then c + 32 else c)"

definition candidates :: "jsstring list \<Rightarrow> jsstring list" where
  "candidates terms = remdups (filter (\<lambda>t. t \<noteq> []) (map (map fold_case) terms))"

text \<open>
  Modelled from the spec: step 2 of the Term Emphasizer, which is missing. A term matches
  at a position when the text there equals it up to case and the match neither begins
  nor ends in the middle of a word; word characters are the ASCII letters and digits.
  \<open>prev\<close> is the character before the position, if any.
\<close>

definition is_word :: "code_unit \<Rightarrow> bool" where
  "is_word c \<longleftrightarrow> (48 \<le> c \<and> c \<le> 57) \<or> (65 \<le> c \<and> c \<le> 90) \<or> (97 \<le> c \<and> c \<le> 122)"

fun mid_word :: "code_unit option \<Rightarrow> code_unit option \<Rightarrow> bool" where
  "mid_word (Some a) (Some b) = (is_word a \<and> is_word b)"
| "mid_word _ _ = False"

fun first_unit :: "jsstring \<Rightarrow> code_unit option" where
  "first_unit [] = None"
| "first_unit (c # cs) = Some c"

definition last_unit :: "jsstring \<Rightarrow> code_unit option" where
  "last_unit s = first_unit (rev s)"

definition matches_at :: "code_unit option \<Rightarrow> jsstring \<Rightarrow> jsstring \<Rightarrow> bool" where
  "matches_at prev t text \<longleftrightarrow>
     t \<noteq> [] \<and> length t \<le> length text \<and>
     map fold_case (take (length t) text) = t \<and>
     \<not> mid_word prev (first_unit text) \<and>
     \<not> mid_word (last_unit (take (length t) text)) (first_unit (drop (length t) text))"

text \<open>
  Modelled from the spec: the longest-match rule of steps 1 to 3, which is missing. The
  length of the longest candidate that matches at the position, if one does.
\<close>

fun longest_match :: "code_unit option \<Rightarrow> jsstring list \<Rightarrow> jsstring \<Rightarrow> nat option" where
  "longest_match prev [] text = None"
| "longest_match prev (t # ts) text =
     (case longest_match prev ts text of
        None \<Rightarrow> if matches_at prev t text then Some (length t) else None
      | Some n \<Rightarrow> if matches_at prev t text \<and> n < length t then Some (length t) else Some n)"

text \<open>
  Modelled from the spec: the scan of steps 2 to 4, which is missing, left to right. A
  match becomes one \<open>Bold\<close> piece holding the source substring and the scan goes on
  after it; any other character becomes a \<open>Plain\<close> piece.
\<close>

datatype piece = Plain code_unit | Bold jsstring

fun scan :: "code_unit option \<Rightarrow> jsstring list \<Rightarrow> jsstring \<Rightarrow> piece list" where
  "scan prev cands [] = []"
| "scan prev cands (c # cs) =
     (case longest_match prev cands (c # cs) of
        None \<Rightarrow> Plain c # scan (Some c) cands cs
      | Some n \<Rightarrow>
          Bold (c # take (n - 1) cs) #
          scan (last_unit (c # take (n - 1) cs)) cands (drop (n - 1) cs))"

text \<open>
  Modelled from the spec: the HTML rendering of steps 3 and 6, which is missing. It wraps
  a matched span in the bold marker and escapes the markup characters outside the
  spans.
\<close>

definition escape :: "code_unit \<Rightarrow> jsstring" where
  "escape c =
     (if c = 60 then lit ''&lt;'' else if c = 62 then lit ''&gt;''
      else if c = 38 then lit ''&amp;'' else [c])"

fun render :: "piece \<Rightarrow> jsstring" where
  "render (Plain c) = escape c"
| "render (Bold s) = lit ''<b>'' @ s @ lit ''</b>''"

text \<open>The characters of the source text that a piece covers.\<close>

fun covers :: "piece \<Rightarrow> jsstring" where
  "covers (Plain c) = [c]"
| "covers (Bold s) = s"

record GenerationResult =
  raw_text :: jsstring
  emphasized_html :: jsstring
  emphasized_plain :: jsstring

text \<open>
  Modelled from the spec: the result of the Term Emphasizer (section 3 and step 5), which
  is missing. The plain rendering is the raw text.
\<close>

definition term_emphasizer :: "jsstring \<Rightarrow> jsstring list \<Rightarrow> GenerationResult" where
  "term_emphasizer raw terms =
     \<lparr>raw_text = raw,
      emphasized_html = concat (map render (scan None (candidates terms) raw)),
      emphasized_plain = raw\<rparr>"

text \<open>
  Modelled from the spec: the outbound success of section 6, which the missing backend
  answers with.
\<close>

definition outbound_success :: "GenerationResult \<Rightarrow> response_data" where
  "outbound_success r =
     \<lparr>status = JStr (lit ''success''),
      job_description = JStr (emphasized_html r),
      raw_description = JStr (emphasized_plain r),
      message = JUndefined,
      detail = JUndefined\<rparr>"

section \<open>Notions used in the statements\<close>

text \<open>The keys that \<open>validateForm\<close> can report.\<close>

definition checked_keys :: "string list" where
  "checked_keys = [''job_title'', ''company_name'', ''location'', ''workplace'', ''skills'',
     ''min_experience_years'', ''exp_level_category'']"

definition field_message :: "string \<times> jsstring \<Rightarrow> bool" where
  "field_message p \<longleftrightarrow> fst p \<in> set checked_keys \<and> snd p \<noteq> []"

text \<open>
  The character before a position of the scan: the last one of the text covered so
  far, or, when nothing is covered yet, the character before the start.
\<close>

definition unit_before :: "code_unit option \<Rightarrow> jsstring \<Rightarrow> code_unit option" where
  "unit_before prev xs = (if xs = [] then prev else last_unit xs)"

section \<open>Example data\<close>

text \<open>
  A conversion for the examples: it gives NaN, as \<open>parseFloat\<close> and \<open>Number\<close> do on a
  text that holds no numeral, such as \<open>abc\<close>.
\<close>

definition nan_of :: "jsstring \<Rightarrow> jsnum" where
  "nan_of s = NaN"

text \<open>A network for the examples that answers no request.\<close>

definition offline :: "jsobj \<Rightarrow> fetch_outcome" where
  "offline body = NetworkError"

text \<open>
  A form with every required field filled, a minimum salary of 120000 and a maximum
  salary of 80000.
\<close>

definition filled_form :: jsobj where
  "filled_form =
     [(''job_title'', FStr (lit ''Backend Engineer'')),
      (''company_name'', FStr (lit ''Acme'')),
      (''location'', FStr (lit ''Lahore'')),
      (''workplace'', FStr (lit ''Remote'')),
      (''skills'', FArr [lit ''Go'', lit ''Docker'']),
      (''min_experience_years'', FNum (Fin 2)),
      (''exp_level_category'', FStr (lit ''Mid Level'')),
      (''min_salary'', FNum (Fin 120000)),
      (''max_salary'', FNum (Fin 80000)),
      (''deadline'', FStr (lit ''2025-12-03'')),
      (''notes'', FStr []),
      (''qualification_details'', FStr []),
      (''benefits_details'', FStr []),
      (''style_preference'', FStr (lit ''LinkedIn'')),
      (''output_length_preference'', FStr (lit ''Standard''))]"

definition filled :: app where
  "filled = initial\<lparr>formData := filled_form\<rparr>"

text \<open>
  The filled form after the job title is replaced by two spaces and the skills text by
  a comma between spaces.
\<close>

definition blanked :: app where
  "blanked = handleSkillsChange (lit '' , '')
     (handleInputChange nan_of ''job_title'' (lit ''  '') ''text'' filled)"

text \<open>
  The state after a failed submission of the blanked form holds the errors of
  \<open>job_title\<close> and \<open>skills\<close>; the user then types a job title.
\<close>

definition retyped :: app where
  "retyped = handleInputChange nan_of ''job_title'' (lit ''Engineer'') ''text''
     (blanked\<lparr>formErrors :=
        [(''job_title'', lit ''Job title is required''),
         (''skills'', lit ''At least one skill is required (comma-separated)'')]\<rparr>)"

text \<open>The filled form after the user has cleared the date input.\<close>

definition cleared :: app where
  "cleared = handleInputChange nan_of ''deadline'' [] ''date'' filled"

text \<open>
  A network for the example that answers every request with the outbound success of
  the generation result for a fixed raw text and the skills Go and Docker.
\<close>

definition example_raw :: jsstring where
  "example_raw = lit ''We need a Backend Engineer skilled in Go and Docker.''"

definition example_backend :: "jsobj \<Rightarrow> fetch_outcome" where
  "example_backend body =
     Response 200 (Data (outbound_success
       (term_emphasizer example_raw [lit ''Go'', lit ''Docker''])))"

text \<open>Local time with a constant offset of five hours, for the example.\<close>

definition plus_five :: "int \<Rightarrow> bool \<Rightarrow> int" where
  "plus_five t u = 18000000"

section \<open>Lemmas on objects and on validation\<close>

lemma map_of_update_same: "map_of (AList.update k v al) k = Some v"
  by (simp add: AList.update_conv')

lemma map_of_update_other: "k' \<noteq> k \<Longrightarrow> map_of (AList.update k v al) k' = map_of al k'"
  by (simp add: AList.update_conv')

lemma map_of_clear_error_other: "k' \<noteq> k \<Longrightarrow> map_of (clear_error k errs) k' = map_of errs k'"
  by (simp add: clear_error_def)

lemma map_of_set_if:
  "map_of (set_if c k m e) k' = (if c \<and> k' = k then Some m else map_of e k')"
  by (simp add: set_if_def AList.update_conv')

lemma validateForm_returns:
  assumes "map_of (formData st) ''job_title'' = Some (FStr jt)"
    and "map_of (formData st) ''company_name'' = Some (FStr cn)"
    and "map_of (formData st) ''location'' = Some (FStr loc)"
    and "length_is_0 (map_of (formData st) ''skills'') = Inr z"
  shows "\<exists>ok st1. validateForm sn st = Inr (ok, st1)"
  using assms by (simp add: validateForm_def or_throw_def Let_def)

lemma validateForm_typed:
  assumes "map_of (formData st) ''job_title'' = Some (FStr jt)"
    and "map_of (formData st) ''company_name'' = Some (FStr cn)"
    and "map_of (formData st) ''location'' = Some (FStr loc)"
    and "length_is_0 (map_of (formData st) ''skills'') = Inr z"
    and "validateForm sn st = Inr (ok, st1)"
  shows "map_of (formErrors st1) k =
        (if k = ''job_title'' \<and> trim jt = [] then Some (lit ''Job title is required'')
         else if k = ''company_name'' \<and> trim cn = [] then Some (lit ''Company name is required'')
         else if k = ''location'' \<and> trim loc = [] then Some (lit ''Location is required'')
         else if k = ''workplace'' \<and> \<not> truthy (map_of (formData st) ''workplace'')
           then Some (lit ''Workplace type is required'')
         else if k = ''skills'' \<and> z
           then Some (lit ''At least one skill is required (comma-separated)'')
         else if k = ''min_experience_years'' \<and>
             (map_of (formData st) ''min_experience_years'' = Some (FStr []) \<or>
              lt_zero (toNumber sn (map_of (formData st) ''min_experience_years'')))
           then Some (lit ''Valid minimum experience (0 or more) is required'')
         else if k = ''exp_level_category'' \<and>
             \<not> truthy (map_of (formData st) ''exp_level_category'')
           then Some (lit ''Experience level is required'')
         else None)"
  using assms
  apply (simp add: validateForm_def or_throw_def Let_def)
  apply (elim conjE)
  apply (drule sym[of _ st1])
  apply (simp add: map_of_set_if)
  done

lemma validateForm_shape:
  assumes "validateForm sn st = Inr (ok, st1)"
  shows "st1 = st\<lparr>formErrors := formErrors st1\<rparr> \<and> ok = (formErrors st1 = [])"
  using assms
  by (auto simp: validateForm_def or_throw_def Let_def split: sum.splits)

lemma validateForm_two_errors:
  assumes "map_of (formData st) ''job_title'' = Some (FStr jt)"
    and "map_of (formData st) ''company_name'' = Some (FStr cn)"
    and "map_of (formData st) ''location'' = Some (FStr loc)"
    and "map_of (formData st) ''skills'' = Some (FArr [])"
    and "trim jt = []" and "trim cn \<noteq> []" and "trim loc \<noteq> []"
    and "truthy (map_of (formData st) ''workplace'')"
    and "truthy (map_of (formData st) ''exp_level_category'')"
    and "map_of (formData st) ''min_experience_years'' \<noteq> Some (FStr [])"
    and "\<not> lt_zero (toNumber sn (map_of (formData st) ''min_experience_years''))"
  shows "validateForm sn st = Inr (False, st\<lparr>formErrors :=
      [(''job_title'', lit ''Job title is required''),
       (''skills'', lit ''At least one skill is required (comma-separated)'')]\<rparr>)"
  using assms by (simp add: validateForm_def or_throw_def Let_def set_if_def)

text \<open>The properties of the example states, read off by evaluation.\<close>

lemma trim_examples:
  "trim (lit ''  '') = []" "trim (lit ''Acme'') = lit ''Acme''"
  "trim (lit ''Lahore'') = lit ''Lahore''"
  "trim (lit ''Backend Engineer'') = lit ''Backend Engineer''"
  by (simp_all add: trim_def lit_def is_ws_def)

lemma skillsArray_blank: "skillsArray (lit '' , '') = []"
  by (simp add: skillsArray_def split_js_def comma_def lit_def trim_def is_ws_def)

lemma blanked_formData:
  "formData blanked =
     AList.update ''skills'' (FArr [])
       (AList.update ''job_title'' (FStr (lit ''  '')) filled_form)"
  by (simp add: blanked_def handleSkillsChange_def handleInputChange_def filled_def
      processedValue_def skillsArray_blank)

lemma blanked_fields:
  "map_of (formData blanked) ''job_title'' = Some (FStr (lit ''  ''))"
  "map_of (formData blanked) ''company_name'' = Some (FStr (lit ''Acme''))"
  "map_of (formData blanked) ''location'' = Some (FStr (lit ''Lahore''))"
  "map_of (formData blanked) ''skills'' = Some (FArr [])"
  "map_of (formData blanked) ''workplace'' = Some (FStr (lit ''Remote''))"
  "map_of (formData blanked) ''exp_level_category'' = Some (FStr (lit ''Mid Level''))"
  "map_of (formData blanked) ''min_experience_years'' = Some (FNum (Fin 2))"
  by (simp_all add: blanked_formData filled_form_def)

lemma filled_fields:
  "map_of (formData filled) ''job_title'' = Some (FStr (lit ''Backend Engineer''))"
  "map_of (formData filled) ''company_name'' = Some (FStr (lit ''Acme''))"
  "map_of (formData filled) ''location'' = Some (FStr (lit ''Lahore''))"
  "map_of (formData filled) ''skills'' = Some (FArr [lit ''Go'', lit ''Docker''])"
  "map_of (formData filled) ''workplace'' = Some (FStr (lit ''Remote''))"
  "map_of (formData filled) ''exp_level_category'' = Some (FStr (lit ''Mid Level''))"
  "map_of (formData filled) ''min_experience_years'' = Some (FNum (Fin 2))"
  "map_of (formData filled) ''min_salary'' = Some (FNum (Fin 120000))"
  "map_of (formData filled) ''max_salary'' = Some (FNum (Fin 80000))"
  by (simp_all add: filled_def filled_form_def)

lemma example_truths:
  "trim (lit ''Acme'') \<noteq> []" "trim (lit ''Lahore'') \<noteq> []"
  "trim (lit ''Backend Engineer'') \<noteq> []"
  "lit ''Remote'' \<noteq> []" "lit ''Mid Level'' \<noteq> []"
  by (simp_all add: trim_def lit_def is_ws_def)

section \<open>Claims on validation\<close>

text \<open>
  C3. The validator evaluates every rule on its own and reports all violations together:
  on a form whose four fields read with \<open>trim\<close> and \<open>length\<close> have their declared types,
  \<open>validateForm\<close> returns, stores the errors and nothing else, and each of the seven keys
  has an error exactly when its own rule is violated. When the job title is empty after
  trimming, the skills list is empty and the other fields are valid, the errors are
  exactly two, keyed \<open>job_title\<close> and \<open>skills\<close>.
\<close>

theorem validateForm_reports_every_violation:
  assumes "map_of (formData st) ''job_title'' = Some (FStr jt)"
    and "map_of (formData st) ''company_name'' = Some (FStr cn)"
    and "map_of (formData st) ''location'' = Some (FStr loc)"
    and "map_of (formData st) ''skills'' = Some (FArr sk)"
  shows "\<exists>ok st1. validateForm sn st = Inr (ok, st1) \<and>
      st1 = st\<lparr>formErrors := formErrors st1\<rparr> \<and> ok = (formErrors st1 = []) \<and>
      (map_of (formErrors st1) ''job_title'' \<noteq> None \<longleftrightarrow> trim jt = []) \<and>
      (map_of (formErrors st1) ''company_name'' \<noteq> None \<longleftrightarrow> trim cn = []) \<and>
      (map_of (formErrors st1) ''location'' \<noteq> None \<longleftrightarrow> trim loc = []) \<and>
      (map_of (formErrors st1) ''workplace'' \<noteq> None \<longleftrightarrow>
         \<not> truthy (map_of (formData st) ''workplace'')) \<and>
      (map_of (formErrors st1) ''skills'' \<noteq> None \<longleftrightarrow> sk = []) \<and>
      (map_of (formErrors st1) ''min_experience_years'' \<noteq> None \<longleftrightarrow>
         map_of (formData st) ''min_experience_years'' = Some (FStr []) \<or>
         lt_zero (toNumber sn (map_of (formData st) ''min_experience_years''))) \<and>
      (map_of (formErrors st1) ''exp_level_category'' \<noteq> None \<longleftrightarrow>
         \<not> truthy (map_of (formData st) ''exp_level_category'')) \<and>
      (trim jt = [] \<and> sk = [] \<and> trim cn \<noteq> [] \<and> trim loc \<noteq> [] \<and>
       truthy (map_of (formData st) ''workplace'') \<and>
       truthy (map_of (formData st) ''exp_level_category'') \<and>
       map_of (formData st) ''min_experience_years'' \<noteq> Some (FStr []) \<and>
       \<not> lt_zero (toNumber sn (map_of (formData st) ''min_experience_years'')) \<longrightarrow>
       formErrors st1 =
         [(''job_title'', lit ''Job title is required''),
          (''skills'', lit ''At least one skill is required (comma-separated)'')])"
proof -
  have len: "length_is_0 (map_of (formData st) ''skills'') = Inr (sk = [])"
    using assms(4) by simp
  obtain ok st1 where v: "validateForm sn st = Inr (ok, st1)"
    using validateForm_returns[OF assms(1-3) len] by blast
  note e = validateForm_typed[OF assms(1-3) len v]
  have shape: "st1 = st\<lparr>formErrors := formErrors st1\<rparr> \<and> ok = (formErrors st1 = [])"
    using validateForm_shape[OF v] .
  have two: "trim jt = [] \<and> sk = [] \<and> trim cn \<noteq> [] \<and> trim loc \<noteq> [] \<and>
       truthy (map_of (formData st) ''workplace'') \<and>
       truthy (map_of (formData st) ''exp_level_category'') \<and>
       map_of (formData st) ''min_experience_years'' \<noteq> Some (FStr []) \<and>
       \<not> lt_zero (toNumber sn (map_of (formData st) ''min_experience_years'')) \<longrightarrow>
       formErrors st1 =
         [(''job_title'', lit ''Job title is required''),
          (''skills'', lit ''At least one skill is required (comma-separated)'')]"
  proof (intro impI, elim conjE)
    assume a: "trim jt = []" "sk = []" "trim cn \<noteq> []" "trim loc \<noteq> []"
       "truthy (map_of (formData st) ''workplace'')"
       "truthy (map_of (formData st) ''exp_level_category'')"
       "map_of (formData st) ''min_experience_years'' \<noteq> Some (FStr [])"
       "\<not> lt_zero (toNumber sn (map_of (formData st) ''min_experience_years''))"
    have "validateForm sn st = Inr (False, st\<lparr>formErrors :=
      [(''job_title'', lit ''Job title is required''),
       (''skills'', lit ''At least one skill is required (comma-separated)'')]\<rparr>)"
      using validateForm_two_errors[OF assms(1-3) _ a(1) a(3) a(4) a(5) a(6) a(7) a(8)]
        assms(4) a(2) by simp
    with v have "st1 = st\<lparr>formErrors :=
      [(''job_title'', lit ''Job title is required''),
       (''skills'', lit ''At least one skill is required (comma-separated)'')]\<rparr>"
      by simp
    then show "formErrors st1 =
         [(''job_title'', lit ''Job title is required''),
          (''skills'', lit ''At least one skill is required (comma-separated)'')]"
      by simp
  qed
  have k1: "map_of (formErrors st1) ''job_title'' \<noteq> None \<longleftrightarrow> trim jt = []"
    by (simp add: e)
  have k2: "map_of (formErrors st1) ''company_name'' \<noteq> None \<longleftrightarrow> trim cn = []"
    by (simp add: e)
  have k3: "map_of (formErrors st1) ''location'' \<noteq> None \<longleftrightarrow> trim loc = []"
    by (simp add: e)
  have k4: "map_of (formErrors st1) ''workplace'' \<noteq> None \<longleftrightarrow>
         \<not> truthy (map_of (formData st) ''workplace'')"
    by (simp add: e)
  have k5: "map_of (formErrors st1) ''skills'' \<noteq> None \<longleftrightarrow> sk = []"
    by (simp add: e)
  have k6: "map_of (formErrors st1) ''min_experience_years'' \<noteq> None \<longleftrightarrow>
         map_of (formData st) ''min_experience_years'' = Some (FStr []) \<or>
         lt_zero (toNumber sn (map_of (formData st) ''min_experience_years''))"
    by (simp add: e)
  have k7: "map_of (formErrors st1) ''exp_level_category'' \<noteq> None \<longleftrightarrow>
         \<not> truthy (map_of (formData st) ''exp_level_category'')"
    by (simp add: e)
  have s1: "st1 = st\<lparr>formErrors := formErrors st1\<rparr>" and s2: "ok = (formErrors st1 = [])"
    using shape by blast+
  show ?thesis
    by (rule exI[of _ ok], rule exI[of _ st1]) (intro conjI v s1 s2 k1 k2 k3 k4 k5 k6 k7 two)
qed

theorem validateForm_reports_every_violation_witness:
  "\<exists>ok st1. validateForm nan_of blanked = Inr (ok, st1) \<and> \<not> ok \<and>
     map_of (formErrors st1) ''job_title'' \<noteq> None \<and>
     map_of (formErrors st1) ''skills'' \<noteq> None \<and>
     map_of (formErrors st1) ''company_name'' = None \<and>
     formErrors st1 =
       [(''job_title'', lit ''Job title is required''),
        (''skills'', lit ''At least one skill is required (comma-separated)'')]"
proof -
  obtain ok st1 where r: "validateForm nan_of blanked = Inr (ok, st1)"
      "ok = (formErrors st1 = [])"
      "map_of (formErrors st1) ''job_title'' \<noteq> None \<longleftrightarrow> trim (lit ''  '') = []"
      "map_of (formErrors st1) ''skills'' \<noteq> None \<longleftrightarrow> ([]::jsstring list) = []"
      "map_of (formErrors st1) ''company_name'' \<noteq> None \<longleftrightarrow> trim (lit ''Acme'') = []"
      "trim (lit ''  '') = [] \<and> ([]::jsstring list) = [] \<and> trim (lit ''Acme'') \<noteq> [] \<and>
       trim (lit ''Lahore'') \<noteq> [] \<and>
       truthy (map_of (formData blanked) ''workplace'') \<and>
       truthy (map_of (formData blanked) ''exp_level_category'') \<and>
       map_of (formData blanked) ''min_experience_years'' \<noteq> Some (FStr []) \<and>
       \<not> lt_zero (toNumber nan_of (map_of (formData blanked) ''min_experience_years'')) \<longrightarrow>
       formErrors st1 =
         [(''job_title'', lit ''Job title is required''),
          (''skills'', lit ''At least one skill is required (comma-separated)'')]"
    using validateForm_reports_every_violation[OF blanked_fields(1-4), of nan_of] by blast
  have errs: "formErrors st1 =
         [(''job_title'', lit ''Job title is required''),
          (''skills'', lit ''At least one skill is required (comma-separated)'')]"
    using r(6) by (simp add: trim_examples(1) example_truths blanked_fields)
  have "\<not> ok" using r(2) errs by simp
  moreover have "map_of (formErrors st1) ''job_title'' \<noteq> None"
    using r(3) by (simp add: trim_examples)
  moreover have "map_of (formErrors st1) ''skills'' \<noteq> None"
    using r(4) by simp
  moreover have "map_of (formErrors st1) ''company_name'' = None"
    using r(5) by (simp add: example_truths)
  ultimately show ?thesis using r(1) errs by blast
qed

text \<open>
  \<open>validateForm\<close> reads seven properties of the form and no other: two states whose forms
  agree on them get the same verdict and the same errors.
\<close>

lemma validateForm_depends:
  assumes "map_of (formData st') ''job_title'' = map_of (formData st) ''job_title''"
    and "map_of (formData st') ''company_name'' = map_of (formData st) ''company_name''"
    and "map_of (formData st') ''location'' = map_of (formData st) ''location''"
    and "map_of (formData st') ''workplace'' = map_of (formData st) ''workplace''"
    and "map_of (formData st') ''skills'' = map_of (formData st) ''skills''"
    and "map_of (formData st') ''min_experience_years'' =
         map_of (formData st) ''min_experience_years''"
    and "map_of (formData st') ''exp_level_category'' =
         map_of (formData st) ''exp_level_category''"
  shows "validateForm sn st' =
     (case validateForm sn st of Inl e \<Rightarrow> Inl e
      | Inr (ok, s) \<Rightarrow> Inr (ok, st'\<lparr>formErrors := formErrors s\<rparr>))"
  using assms
  by (simp add: validateForm_def or_throw_def Let_def split: sum.splits)

lemma lit_eq_Nil: "lit s = [] \<longleftrightarrow> s = []"
  by (simp add: lit_def)

lemma set_if_field_message:
  assumes "list_all field_message e" and "field_message (k, m)"
  shows "list_all field_message (set_if c k m e)"
proof -
  have "list_all field_message (AList.update k m e)"
    using assms by (induction e) auto
  with assms(1) show ?thesis by (simp add: set_if_def)
qed

lemma validateForm_field_messages:
  assumes "validateForm sn st = Inr (ok, st1)"
  shows "list_all field_message (formErrors st1)"
proof -
  have mem: "field_message (''job_title'', lit ''Job title is required'')"
    "field_message (''company_name'', lit ''Company name is required'')"
    "field_message (''location'', lit ''Location is required'')"
    "field_message (''workplace'', lit ''Workplace type is required'')"
    "field_message (''skills'', lit ''At least one skill is required (comma-separated)'')"
    "field_message
       (''min_experience_years'', lit ''Valid minimum experience (0 or more) is required'')"
    "field_message (''exp_level_category'', lit ''Experience level is required'')"
    by (simp_all add: field_message_def checked_keys_def lit_eq_Nil)
  have e0: "list_all field_message []" by simp
  note steps = set_if_field_message[OF set_if_field_message[OF set_if_field_message[OF
      set_if_field_message[OF set_if_field_message[OF set_if_field_message[OF
      set_if_field_message[OF e0 mem(1)] mem(2)] mem(3)] mem(4)] mem(5)] mem(6)] mem(7)]
  from assms show ?thesis
    by (auto simp: validateForm_def or_throw_def Let_def split: sum.splits intro!: steps)
qed

lemma validateForm_no_other_key:
  assumes "validateForm sn st = Inr (ok, st1)" and "k \<notin> set checked_keys"
  shows "map_of (formErrors st1) k = None"
proof (rule ccontr)
  assume "map_of (formErrors st1) k \<noteq> None"
  then obtain m where "map_of (formErrors st1) k = Some m" by blast
  then have "(k, m) \<in> set (formErrors st1)" by (rule map_of_SomeD)
  then have "field_message (k, m)"
    using validateForm_field_messages[OF assms(1)] by (simp add: list_all_iff)
  then show False using assms(2) by (simp add: field_message_def)
qed

text \<open>
  C5, as the spec states it: a maximum salary below the minimum salary fails validation
  with an error on \<open>max_salary\<close>. The code does not check the salary fields (the comment
  of line 88 says so): the filled form, with a minimum of 120000 and a maximum of 80000,
  passes validation with no error at all.
\<close>

theorem salary_range_counterexample:
  "map_of (formData filled) ''min_salary'' = Some (FNum (Fin 120000)) \<and>
   map_of (formData filled) ''max_salary'' = Some (FNum (Fin 80000)) \<and>
   validateForm nan_of filled = Inr (True, filled\<lparr>formErrors := []\<rparr>)"
  by (simp add: filled_fields validateForm_def or_throw_def Let_def set_if_def
      trim_examples example_truths lit_eq_Nil)

text \<open>
  C5, amended: whatever \<open>min_salary\<close> and \<open>max_salary\<close> hold, validation reports no error
  on either, and its verdict and its errors do not depend on them.
\<close>

theorem validateForm_ignores_salary:
  assumes "validateForm sn st = Inr (ok, st1)"
  shows "map_of (formErrors st1) ''max_salary'' = None \<and>
     map_of (formErrors st1) ''min_salary'' = None \<and>
     validateForm sn
       (st\<lparr>formData := AList.update ''max_salary'' hi
                          (AList.update ''min_salary'' lo (formData st))\<rparr>) =
     Inr (ok, st1\<lparr>formData := AList.update ''max_salary'' hi
                          (AList.update ''min_salary'' lo (formData st))\<rparr>)"
proof -
  let ?st' = "st\<lparr>formData := AList.update ''max_salary'' hi
                          (AList.update ''min_salary'' lo (formData st))\<rparr>"
  have a: "map_of (formErrors st1) ''max_salary'' = None"
    by (rule validateForm_no_other_key[OF assms]) (simp add: checked_keys_def)
  have b: "map_of (formErrors st1) ''min_salary'' = None"
    by (rule validateForm_no_other_key[OF assms]) (simp add: checked_keys_def)
  have "validateForm sn ?st' =
     (case validateForm sn st of Inl e \<Rightarrow> Inl e
      | Inr (ok, s) \<Rightarrow> Inr (ok, ?st'\<lparr>formErrors := formErrors s\<rparr>))"
    by (rule validateForm_depends) (simp_all add: map_of_update_other)
  then have c: "validateForm sn ?st' = Inr (ok, ?st'\<lparr>formErrors := formErrors st1\<rparr>)"
    using assms by simp
  obtain e where eq: "st1 = st\<lparr>formErrors := e\<rparr>"
    using validateForm_shape[OF assms] by blast
  show ?thesis using a b c unfolding eq by simp
qed

theorem validateForm_ignores_salary_witness:
  "map_of (formErrors (filled\<lparr>formErrors := []\<rparr>)) ''max_salary'' = None \<and>
   validateForm nan_of
     (filled\<lparr>formData := AList.update ''max_salary'' (FNum (Fin 150000))
                          (AList.update ''min_salary'' FNull (formData filled))\<rparr>) =
   Inr (True, filled\<lparr>formErrors := [],
                     formData := AList.update ''max_salary'' (FNum (Fin 150000))
                          (AList.update ''min_salary'' FNull (formData filled))\<rparr>)"
proof -
  have v: "validateForm nan_of filled = Inr (True, filled\<lparr>formErrors := []\<rparr>)"
    by (simp add: filled_fields validateForm_def or_throw_def Let_def set_if_def
        trim_examples example_truths lit_eq_Nil)
  show ?thesis
    using validateForm_ignores_salary[OF v, of "FNum (Fin 150000)" FNull] by simp
qed

lemma number_input_stores:
  "map_of (formData (handleInputChange pf ''min_experience_years'' val ''number'' st))
     ''min_experience_years'' = Some (if val = [] then FStr [] else FNum (pf val))"
  by (simp add: handleInputChange_def processedValue_def map_of_update_same)

text \<open>
  C6. The minimum experience holds the initial 0 or what \<open>handleInputChange\<close> stores
  from its number input (lines 341 to 346): the empty string, which the input reports
  for every text that is no number, or the number that \<open>parseFloat\<close> reads from a valid
  numeral, which is never NaN (\<open>number_input_stores\<close>). For every such value, on a form
  whose other fields have their declared types, validation reports the error of
  \<open>min_experience_years\<close> exactly when the value is the empty string or a number below
  zero, and then fails; it reports none exactly when the value is a number that is not
  below zero, so every number from zero upwards passes.
\<close>

theorem validateForm_min_experience:
  assumes "map_of (formData st) ''job_title'' = Some (FStr jt)"
    and "map_of (formData st) ''company_name'' = Some (FStr cn)"
    and "map_of (formData st) ''location'' = Some (FStr loc)"
    and "map_of (formData st) ''skills'' = Some (FArr sk)"
    and "map_of (formData st) ''min_experience_years'' = Some v"
    and "v = FStr [] \<or> (\<exists>n. v = FNum n \<and> n \<noteq> NaN)"
  shows "\<exists>ok st1. validateForm sn st = Inr (ok, st1) \<and>
     (map_of (formErrors st1) ''min_experience_years'' =
        Some (lit ''Valid minimum experience (0 or more) is required'') \<longleftrightarrow>
      v = FStr [] \<or> (\<exists>n. v = FNum n \<and> lt_zero n)) \<and>
     (map_of (formErrors st1) ''min_experience_years'' = None \<longleftrightarrow>
      (\<exists>n. v = FNum n \<and> \<not> lt_zero n)) \<and>
     (v = FStr [] \<or> (\<exists>n. v = FNum n \<and> lt_zero n) \<longrightarrow> \<not> ok) \<and>
     (\<forall>r. v = FNum (Fin r) \<longrightarrow>
        (map_of (formErrors st1) ''min_experience_years'' = None \<longleftrightarrow> 0 \<le> r))"
proof -
  have len: "length_is_0 (map_of (formData st) ''skills'') = Inr (sk = [])"
    using assms(4) by simp
  obtain ok st1 where v: "validateForm sn st = Inr (ok, st1)"
    using validateForm_returns[OF assms(1-3) len] by blast
  have e: "map_of (formErrors st1) ''min_experience_years'' =
      (if v = FStr [] \<or> lt_zero (toNumber sn (Some v))
       then Some (lit ''Valid minimum experience (0 or more) is required'') else None)"
    using validateForm_typed[OF assms(1-3) len v, of "''min_experience_years''"] assms(5)
    by simp
  have ok: "ok = (formErrors st1 = [])"
    using validateForm_shape[OF v] by blast
  have neg: "v = FStr [] \<or> lt_zero (toNumber sn (Some v)) \<longleftrightarrow>
      v = FStr [] \<or> (\<exists>n. v = FNum n \<and> lt_zero n)"
    using assms(6) by auto
  have pos: "\<not> (v = FStr [] \<or> lt_zero (toNumber sn (Some v))) \<longleftrightarrow>
      (\<exists>n. v = FNum n \<and> \<not> lt_zero n)"
    using assms(6) by auto
  have a: "map_of (formErrors st1) ''min_experience_years'' =
        Some (lit ''Valid minimum experience (0 or more) is required'') \<longleftrightarrow>
      v = FStr [] \<or> (\<exists>n. v = FNum n \<and> lt_zero n)"
    unfolding neg[symmetric] by (simp add: e)
  have b: "map_of (formErrors st1) ''min_experience_years'' = None \<longleftrightarrow>
      (\<exists>n. v = FNum n \<and> \<not> lt_zero n)"
    unfolding pos[symmetric] by (simp add: e)
  have c: "v = FStr [] \<or> (\<exists>n. v = FNum n \<and> lt_zero n) \<longrightarrow> \<not> ok"
  proof
    assume "v = FStr [] \<or> (\<exists>n. v = FNum n \<and> lt_zero n)"
    then have "map_of (formErrors st1) ''min_experience_years'' =
        Some (lit ''Valid minimum experience (0 or more) is required'')"
      using a by simp
    then have "formErrors st1 \<noteq> []" by auto
    then show "\<not> ok" using ok by simp
  qed
  have d: "\<forall>r. v = FNum (Fin r) \<longrightarrow>
        (map_of (formErrors st1) ''min_experience_years'' = None \<longleftrightarrow> 0 \<le> r)"
    using e by auto
  show ?thesis
    by (rule exI[of _ ok], rule exI[of _ st1]) (intro conjI v a b c d)
qed

theorem validateForm_min_experience_witness:
  "(\<exists>ok st1. validateForm nan_of
       (filled\<lparr>formData := AList.update ''min_experience_years'' (FNum (Fin (- 1)))
          filled_form\<rparr>) = Inr (ok, st1) \<and> \<not> ok \<and>
     map_of (formErrors st1) ''min_experience_years'' =
       Some (lit ''Valid minimum experience (0 or more) is required'')) \<and>
   (\<exists>ok st1. validateForm nan_of
       (filled\<lparr>formData := AList.update ''min_experience_years'' (FStr [])
          filled_form\<rparr>) = Inr (ok, st1) \<and> \<not> ok \<and>
     map_of (formErrors st1) ''min_experience_years'' =
       Some (lit ''Valid minimum experience (0 or more) is required'')) \<and>
   (\<exists>ok st1. validateForm nan_of filled = Inr (ok, st1) \<and>
     map_of (formErrors st1) ''min_experience_years'' = None)"
proof -
  let ?neg = "filled\<lparr>formData := AList.update ''min_experience_years'' (FNum (Fin (- 1)))
          filled_form\<rparr>"
  let ?empty = "filled\<lparr>formData := AList.update ''min_experience_years'' (FStr [])
          filled_form\<rparr>"
  have f: "map_of (formData ?neg) ''job_title'' = Some (FStr (lit ''Backend Engineer''))"
    "map_of (formData ?neg) ''company_name'' = Some (FStr (lit ''Acme''))"
    "map_of (formData ?neg) ''location'' = Some (FStr (lit ''Lahore''))"
    "map_of (formData ?neg) ''skills'' = Some (FArr [lit ''Go'', lit ''Docker''])"
    "map_of (formData ?neg) ''min_experience_years'' = Some (FNum (Fin (- 1)))"
    by (simp_all add: filled_form_def)
  have g: "map_of (formData ?empty) ''job_title'' = Some (FStr (lit ''Backend Engineer''))"
    "map_of (formData ?empty) ''company_name'' = Some (FStr (lit ''Acme''))"
    "map_of (formData ?empty) ''location'' = Some (FStr (lit ''Lahore''))"
    "map_of (formData ?empty) ''skills'' = Some (FArr [lit ''Go'', lit ''Docker''])"
    "map_of (formData ?empty) ''min_experience_years'' = Some (FStr [])"
    by (simp_all add: filled_form_def)
  have df: "FNum (Fin (- 1)) = FStr [] \<or> (\<exists>n. FNum (Fin (- 1)) = FNum n \<and> n \<noteq> NaN)"
    and dg: "FStr [] = FStr [] \<or> (\<exists>n. FStr [] = FNum n \<and> n \<noteq> NaN)"
    and dh: "FNum (Fin 2) = FStr [] \<or> (\<exists>n. FNum (Fin 2) = FNum n \<and> n \<noteq> NaN)"
    by simp_all
  have a: "\<exists>ok st1. validateForm nan_of ?neg = Inr (ok, st1) \<and> \<not> ok \<and>
     map_of (formErrors st1) ''min_experience_years'' =
       Some (lit ''Valid minimum experience (0 or more) is required'')"
    using validateForm_min_experience[OF f df, of nan_of] by auto
  have b: "\<exists>ok st1. validateForm nan_of ?empty = Inr (ok, st1) \<and> \<not> ok \<and>
     map_of (formErrors st1) ''min_experience_years'' =
       Some (lit ''Valid minimum experience (0 or more) is required'')"
    using validateForm_min_experience[OF g dg, of nan_of] by auto
  have c: "\<exists>ok st1. validateForm nan_of filled = Inr (ok, st1) \<and>
     map_of (formErrors st1) ''min_experience_years'' = None"
    using validateForm_min_experience[OF filled_fields(1-4) filled_fields(7) dh, of nan_of]
    by auto
  show ?thesis by (intro conjI a b c)
qed

section \<open>Claims on submission\<close>

text \<open>
  C7. A request that fails validation ends \<open>handleSubmit\<close> before the request to the
  backend: whatever the network would answer, no payload is sent, the state changes in
  \<open>formErrors\<close> only, and \<open>formErrors\<close> holds at least one entry, each a checked field with
  a non-empty message. A validation that throws sends nothing either.
\<close>

theorem handleSubmit_short_circuits:
  "(validateForm sn st = Inr (False, st1) \<longrightarrow>
      handleSubmit sn net st = Inr (st1, []) \<and>
      st1 = st\<lparr>formErrors := formErrors st1\<rparr> \<and>
      formErrors st1 \<noteq> [] \<and>
      list_all field_message (formErrors st1)) \<and>
   (validateForm sn st = Inl e \<longrightarrow> handleSubmit sn net st = Inl e)"
proof (intro conjI impI)
  assume v: "validateForm sn st = Inr (False, st1)"
  show "handleSubmit sn net st = Inr (st1, [])"
    using v by (simp add: handleSubmit_def or_throw_def)
  show "st1 = st\<lparr>formErrors := formErrors st1\<rparr>"
    using validateForm_shape[OF v] by blast
  show "formErrors st1 \<noteq> []"
    using validateForm_shape[OF v] by blast
  show "list_all field_message (formErrors st1)"
    by (rule validateForm_field_messages[OF v])
next
  assume "validateForm sn st = Inl e"
  then show "handleSubmit sn net st = Inl e"
    by (simp add: handleSubmit_def or_throw_def)
qed

lemma validateForm_blanked:
  "validateForm nan_of blanked = Inr (False, blanked\<lparr>formErrors :=
      [(''job_title'', lit ''Job title is required''),
       (''skills'', lit ''At least one skill is required (comma-separated)'')]\<rparr>)"
  by (rule validateForm_two_errors[OF blanked_fields(1-4)])
     (simp_all add: blanked_fields trim_examples example_truths lit_eq_Nil)

theorem handleSubmit_short_circuits_witness:
  "validateForm nan_of blanked = Inr (False, blanked\<lparr>formErrors :=
      [(''job_title'', lit ''Job title is required''),
       (''skills'', lit ''At least one skill is required (comma-separated)'')]\<rparr>) \<and>
   handleSubmit nan_of offline blanked = Inr (blanked\<lparr>formErrors :=
      [(''job_title'', lit ''Job title is required''),
       (''skills'', lit ''At least one skill is required (comma-separated)'')]\<rparr>, [])"
  using handleSubmit_short_circuits[of nan_of blanked "blanked\<lparr>formErrors :=
      [(''job_title'', lit ''Job title is required''),
       (''skills'', lit ''At least one skill is required (comma-separated)'')]\<rparr>" offline]
    validateForm_blanked by blast

lemma update_absorbs:
  "k \<noteq> k' \<Longrightarrow>
     AList.update k v (AList.update k' w (AList.update k v1 al)) =
     AList.update k v (AList.update k' w (AList.update k v2 al))"
  by (induction al) auto

lemma payload_min_salary:
  "payload sn (AList.update ''min_salary'' FNull fd) =
   payload sn (AList.update ''min_salary'' (FNum (Fin 0)) fd)"
  by (simp add: payload_def salary_or_0_def map_of_update_same map_of_update_other)

lemma payload_max_salary:
  "payload sn (AList.update ''max_salary'' FNull fd) =
   payload sn (AList.update ''max_salary'' (FNum (Fin 0)) fd)"
proof -
  have "AList.update ''max_salary'' (FNum (Fin 0))
          (AList.update ''min_salary'' (FNum (salary_or_0 sn (map_of fd ''min_salary'')))
             (AList.update ''max_salary'' FNull fd)) =
        AList.update ''max_salary'' (FNum (Fin 0))
          (AList.update ''min_salary'' (FNum (salary_or_0 sn (map_of fd ''min_salary'')))
             (AList.update ''max_salary'' (FNum (Fin 0)) fd))"
    by (rule update_absorbs) simp
  then show ?thesis
    by (simp add: payload_def salary_or_0_def map_of_update_same map_of_update_other)
qed

text \<open>Two forms that validate alike and make the same payload send the same requests.\<close>

lemma handleSubmit_sent_alike:
  assumes "validateForm sn a =
     (case validateForm sn b of Inl e \<Rightarrow> Inl e
      | Inr (ok, s) \<Rightarrow> Inr (ok, a\<lparr>formErrors := formErrors s\<rparr>))"
    and "payload sn (formData a) = payload sn (formData b)"
  shows "map_sum id snd (handleSubmit sn net a) = map_sum id snd (handleSubmit sn net b)"
proof (cases "validateForm sn b")
  case (Inl e)
  with assms(1) show ?thesis by (simp add: handleSubmit_def or_throw_def)
next
  case (Inr r)
  obtain ok s where r: "r = (ok, s)" by (cases r)
  with Inr assms show ?thesis by (simp add: handleSubmit_def or_throw_def Let_def)
qed

text \<open>
  C9. The payload holds the number 0 where the form holds \<open>null\<close> for \<open>min_salary\<close> or
  \<open>max_salary\<close>; a form with \<open>null\<close> and the same form with 0 make the same payload, and
  \<open>handleSubmit\<close> sends the same requests for both. A form that passes validation sends
  exactly its payload.
\<close>

theorem payload_null_salary_is_zero:
  "(map_of fd ''min_salary'' = Some FNull \<longrightarrow>
      map_of (payload sn fd) ''min_salary'' = Some (FNum (Fin 0))) \<and>
   (map_of fd ''max_salary'' = Some FNull \<longrightarrow>
      map_of (payload sn fd) ''max_salary'' = Some (FNum (Fin 0))) \<and>
   payload sn (AList.update ''min_salary'' FNull fd) =
     payload sn (AList.update ''min_salary'' (FNum (Fin 0)) fd) \<and>
   payload sn (AList.update ''max_salary'' FNull fd) =
     payload sn (AList.update ''max_salary'' (FNum (Fin 0)) fd) \<and>
   map_sum id snd (handleSubmit sn net (st\<lparr>formData := AList.update ''min_salary'' FNull fd\<rparr>)) =
     map_sum id snd
       (handleSubmit sn net (st\<lparr>formData := AList.update ''min_salary'' (FNum (Fin 0)) fd\<rparr>)) \<and>
   map_sum id snd (handleSubmit sn net (st\<lparr>formData := AList.update ''max_salary'' FNull fd\<rparr>)) =
     map_sum id snd
       (handleSubmit sn net (st\<lparr>formData := AList.update ''max_salary'' (FNum (Fin 0)) fd\<rparr>)) \<and>
   (validateForm sn st = Inr (True, st1) \<longrightarrow>
      map_sum id snd (handleSubmit sn net st) = Inr [payload sn (formData st)])"
proof (intro conjI impI)
  assume "map_of fd ''min_salary'' = Some FNull"
  then show "map_of (payload sn fd) ''min_salary'' = Some (FNum (Fin 0))"
    by (simp add: payload_def salary_or_0_def map_of_update_same map_of_update_other)
next
  assume "map_of fd ''max_salary'' = Some FNull"
  then show "map_of (payload sn fd) ''max_salary'' = Some (FNum (Fin 0))"
    by (simp add: payload_def salary_or_0_def map_of_update_same map_of_update_other)
next
  show "payload sn (AList.update ''min_salary'' FNull fd) =
     payload sn (AList.update ''min_salary'' (FNum (Fin 0)) fd)"
    by (rule payload_min_salary)
next
  show "payload sn (AList.update ''max_salary'' FNull fd) =
     payload sn (AList.update ''max_salary'' (FNum (Fin 0)) fd)"
    by (rule payload_max_salary)
next
  show "map_sum id snd
      (handleSubmit sn net (st\<lparr>formData := AList.update ''min_salary'' FNull fd\<rparr>)) =
     map_sum id snd
       (handleSubmit sn net (st\<lparr>formData := AList.update ''min_salary'' (FNum (Fin 0)) fd\<rparr>))"
    by (rule handleSubmit_sent_alike, rule validateForm_depends)
       (simp_all add: map_of_update_other payload_min_salary)
next
  show "map_sum id snd
      (handleSubmit sn net (st\<lparr>formData := AList.update ''max_salary'' FNull fd\<rparr>)) =
     map_sum id snd
       (handleSubmit sn net (st\<lparr>formData := AList.update ''max_salary'' (FNum (Fin 0)) fd\<rparr>))"
    by (rule handleSubmit_sent_alike, rule validateForm_depends)
       (simp_all add: map_of_update_other payload_max_salary)
next
  assume "validateForm sn st = Inr (True, st1)"
  then show "map_sum id snd (handleSubmit sn net st) = Inr [payload sn (formData st)]"
    by (simp add: handleSubmit_def or_throw_def Let_def)
qed

lemma validateForm_filled:
  "validateForm nan_of filled = Inr (True, filled\<lparr>formErrors := []\<rparr>)"
  by (simp add: filled_fields validateForm_def or_throw_def Let_def set_if_def
      trim_examples example_truths lit_eq_Nil)

theorem payload_null_salary_is_zero_witness:
  "map_of (blank_form []) ''min_salary'' = Some FNull \<and>
   map_of (payload nan_of (blank_form [])) ''min_salary'' = Some (FNum (Fin 0)) \<and>
   map_of (blank_form []) ''max_salary'' = Some FNull \<and>
   map_of (payload nan_of (blank_form [])) ''max_salary'' = Some (FNum (Fin 0)) \<and>
   validateForm nan_of filled = Inr (True, filled\<lparr>formErrors := []\<rparr>) \<and>
   map_sum id snd (handleSubmit nan_of offline filled) = Inr [payload nan_of (formData filled)]"
proof -
  have a: "map_of (blank_form []) ''min_salary'' = Some FNull"
    and b: "map_of (blank_form []) ''max_salary'' = Some FNull"
    by (simp_all add: blank_form_def)
  show ?thesis
    using payload_null_salary_is_zero[of "blank_form []" nan_of offline filled
        "filled\<lparr>formErrors := []\<rparr>"] a b validateForm_filled
    by blast
qed

section \<open>Claims on the change handlers\<close>

lemma delete_update_same_key: "AList.delete k (AList.update k v al) = AList.delete k al"
  by (rule AList.delete_update_same)

lemma delete_clear_error: "AList.delete k (clear_error k errs) = AList.delete k errs"
  by (simp add: clear_error_def AList.delete_idem)

text \<open>
  C10. Editing the field \<open>name\<close> leaves every other property of the form data and every
  other entry of the errors as it was: apart from the entries of \<open>name\<close> both lists are
  unchanged, the errors are either unchanged or have lost the entry of \<open>name\<close>, and no
  other cell of the state changes. The same holds of \<open>handleSkillsChange\<close> and \<open>skills\<close>.
\<close>

theorem handlers_frame:
  "(k \<noteq> name \<longrightarrow>
      map_of (formData (handleInputChange pf name val type st)) k = map_of (formData st) k \<and>
      map_of (formErrors (handleInputChange pf name val type st)) k = map_of (formErrors st) k) \<and>
   AList.delete name (formData (handleInputChange pf name val type st)) =
     AList.delete name (formData st) \<and>
   AList.delete name (formErrors (handleInputChange pf name val type st)) =
     AList.delete name (formErrors st) \<and>
   (formErrors (handleInputChange pf name val type st) = formErrors st \<or>
    formErrors (handleInputChange pf name val type st) = AList.delete name (formErrors st)) \<and>
   handleInputChange pf name val type st =
     st\<lparr>formData := formData (handleInputChange pf name val type st),
        formErrors := formErrors (handleInputChange pf name val type st)\<rparr> \<and>
   (k \<noteq> ''skills'' \<longrightarrow>
      map_of (formData (handleSkillsChange sval st)) k = map_of (formData st) k \<and>
      map_of (formErrors (handleSkillsChange sval st)) k = map_of (formErrors st) k) \<and>
   AList.delete ''skills'' (formData (handleSkillsChange sval st)) =
     AList.delete ''skills'' (formData st) \<and>
   AList.delete ''skills'' (formErrors (handleSkillsChange sval st)) =
     AList.delete ''skills'' (formErrors st) \<and>
   (formErrors (handleSkillsChange sval st) = formErrors st \<or>
    formErrors (handleSkillsChange sval st) = AList.delete ''skills'' (formErrors st)) \<and>
   handleSkillsChange sval st =
     st\<lparr>formData := formData (handleSkillsChange sval st),
        formErrors := formErrors (handleSkillsChange sval st)\<rparr>"
proof -
  have c: "\<And>n. clear_error n (formErrors st) = formErrors st \<or>
      clear_error n (formErrors st) = AList.delete n (formErrors st)"
    by (simp add: clear_error_def)
  show ?thesis
    using c[of name] c[of "''skills''"]
    by (simp add: handleInputChange_def handleSkillsChange_def map_of_update_other
        map_of_clear_error_other delete_update_same_key delete_clear_error)
qed

theorem handlers_frame_witness:
  "''skills'' \<noteq> ''job_title'' \<and>
   map_of (formData retyped) ''skills'' = Some (FArr []) \<and>
   map_of (formErrors retyped) ''skills'' =
     Some (lit ''At least one skill is required (comma-separated)'') \<and>
   map_of (formErrors retyped) ''job_title'' = None \<and>
   map_of (formData retyped) ''job_title'' = Some (FStr (lit ''Engineer''))"
proof -
  let ?st = "blanked\<lparr>formErrors :=
        [(''job_title'', lit ''Job title is required''),
         (''skills'', lit ''At least one skill is required (comma-separated)'')]\<rparr>"
  have ne: "''skills'' \<noteq> ''job_title''" by simp
  have f: "map_of (formData retyped) ''skills'' = map_of (formData ?st) ''skills''"
    and e: "map_of (formErrors retyped) ''skills'' = map_of (formErrors ?st) ''skills''"
    using handlers_frame[of "''skills''" "''job_title''" nan_of "lit ''Engineer''" "''text''" ?st]
      ne unfolding retyped_def by blast+
  have own: "map_of (formErrors retyped) ''job_title'' = None"
    "map_of (formData retyped) ''job_title'' = Some (FStr (lit ''Engineer''))"
    by (simp_all add: retyped_def handleInputChange_def clear_error_def has_error_def
        lit_eq_Nil AList.delete_conv' map_of_update_same processedValue_def)
  show ?thesis using ne f e own by (simp add: blanked_fields)
qed

section \<open>Claims on the skills field\<close>

lemma split_acc_nonempty: "split_acc sep cur s \<noteq> []"
  by (induction s arbitrary: cur) auto

lemma join_js_Cons: "ps \<noteq> [] \<Longrightarrow> join_js sep (p # ps) = p @ sep # join_js sep ps"
  by (cases ps) auto

lemma join_split_acc: "join_js sep (split_acc sep cur s) = cur @ s"
  by (induction s arbitrary: cur) (auto simp: join_js_Cons split_acc_nonempty)

lemma split_acc_no_sep:
  "sep \<notin> set cur \<Longrightarrow> p \<in> set (split_acc sep cur s) \<Longrightarrow> sep \<notin> set p"
proof (induction s arbitrary: cur)
  case Nil
  then show ?case by simp
next
  case (Cons c cs)
  show ?case
  proof (cases "c = sep")
    case True
    with Cons.prems have "p = cur \<or> p \<in> set (split_acc sep [] cs)" by simp
    then show ?thesis using Cons.prems(1) Cons.IH[of "[]"] by auto
  next
    case False
    with Cons.prems have "p \<in> set (split_acc sep (cur @ [c]) cs)" by simp
    moreover have "sep \<notin> set (cur @ [c])" using Cons.prems(1) False by auto
    ultimately show ?thesis using Cons.IH by blast
  qed
qed

lemma set_split_acc:
  "\<Union>(set ` set (split_acc sep cur s)) \<union> (set s \<inter> {sep}) = set cur \<union> set s"
proof (induction s arbitrary: cur)
  case Nil
  then show ?case by simp
next
  case (Cons c cs)
  show ?case
  proof (cases "c = sep")
    case True
    have "\<Union>(set ` set (split_acc sep [] cs)) \<union> (set cs \<inter> {sep}) = set cs"
      using Cons.IH[of "[]"] by simp
    then show ?thesis using True by auto
  next
    case False
    have "\<Union>(set ` set (split_acc sep (cur @ [c]) cs)) \<union> (set cs \<inter> {sep}) =
        set (cur @ [c]) \<union> set cs"
      by (rule Cons.IH)
    then show ?thesis using False by auto
  qed
qed

lemma set_trim: "set (trim s) \<subseteq> set s"
proof -
  have "set (trim s) \<subseteq> set (dropWhile is_ws s)"
    unfolding trim_def using set_dropWhileD by fastforce
  also have "\<dots> \<subseteq> set s" using set_dropWhileD by fastforce
  finally show ?thesis .
qed

lemma trim_eq_Nil: "trim s = [] \<longleftrightarrow> (\<forall>c\<in>set s. is_ws c)"
proof -
  let ?d = "dropWhile is_ws s"
  have "trim s = [] \<longleftrightarrow> (\<forall>c\<in>set ?d. is_ws c)"
    by (simp add: trim_def dropWhile_eq_Nil_conv)
  also have "\<dots> \<longleftrightarrow> ?d = []"
  proof
    assume a: "\<forall>c\<in>set ?d. is_ws c"
    show "?d = []"
    proof (rule ccontr)
      assume n: "?d \<noteq> []"
      then have "\<not> is_ws (hd ?d)" by (rule hd_dropWhile)
      moreover have "hd ?d \<in> set ?d" using n by (rule hd_in_set)
      ultimately show False using a by blast
    qed
  next
    assume e: "?d = []"
    show "\<forall>c\<in>set ?d. is_ws c" unfolding e by simp
  qed
  also have "\<dots> \<longleftrightarrow> (\<forall>c\<in>set s. is_ws c)"
    by (simp add: dropWhile_eq_Nil_conv)
  finally show ?thesis .
qed

lemma trim_trim: "trim (trim s) = trim s"
proof -
  let ?d = "dropWhile is_ws s"
  let ?r = "dropWhile is_ws (rev ?d)"
  have r: "?r = [] \<or> \<not> is_ws (hd ?r)" using hd_dropWhile by blast
  have "rev (takeWhile is_ws (rev ?d) @ ?r) = rev ?r @ rev (takeWhile is_ws (rev ?d))"
    by (rule rev_append)
  then have "rev (rev ?d) = rev ?r @ rev (takeWhile is_ws (rev ?d))"
    by (simp only: takeWhile_dropWhile_id)
  then have d: "?d = rev ?r @ rev (takeWhile is_ws (rev ?d))"
    by (simp only: rev_rev_ident)
  have e: "rev ?r = [] \<or> \<not> is_ws (hd (rev ?r))"
  proof (cases "rev ?r = []")
    case False
    then have "?d \<noteq> []" using d by (metis append_is_Nil_conv)
    then have "\<not> is_ws (hd ?d)" by (rule hd_dropWhile)
    moreover have "hd ?d = hd (rev ?r)" using d False by (metis hd_append2)
    ultimately show ?thesis by simp
  qed simp
  have 1: "dropWhile is_ws (rev ?r) = rev ?r"
    using e by (simp add: dropWhile_eq_self_iff)
  have 2: "dropWhile is_ws ?r = ?r"
    using r by (simp add: dropWhile_eq_self_iff)
  have "trim (rev ?r) = rev ?r"
    unfolding trim_def 1 by (simp add: 2)
  then show ?thesis by (simp add: trim_def)
qed

lemma filter_nonempty_map:
  "filter (\<lambda>s. s \<noteq> []) (map f xs) = [f p. p \<leftarrow> xs, f p \<noteq> []]"
  by (induction xs) simp_all

lemma skillsArray_eq_Nil: "skillsArray val = [] \<longleftrightarrow> (\<forall>c\<in>set val. c = comma \<or> is_ws c)"
proof -
  have no: "\<And>p. p \<in> set (split_js comma val) \<Longrightarrow> comma \<notin> set p"
    unfolding split_js_def by (rule split_acc_no_sep[of comma "[]"]) simp_all
  have cover: "\<Union>(set ` set (split_js comma val)) \<union> (set val \<inter> {comma}) = set val"
    unfolding split_js_def using set_split_acc[of comma "[]" val] by simp
  have "skillsArray val = [] \<longleftrightarrow> (\<forall>p\<in>set (split_js comma val). trim p = [])"
    by (auto simp: skillsArray_def filter_empty_conv)
  also have "\<dots> \<longleftrightarrow> (\<forall>p\<in>set (split_js comma val). \<forall>c\<in>set p. is_ws c)"
    by (simp add: trim_eq_Nil)
  also have "\<dots> \<longleftrightarrow> (\<forall>c\<in>set val. c = comma \<or> is_ws c)"
  proof
    assume a: "\<forall>p\<in>set (split_js comma val). \<forall>c\<in>set p. is_ws c"
    show "\<forall>c\<in>set val. c = comma \<or> is_ws c"
    proof
      fix c assume "c \<in> set val"
      then have "c \<in> \<Union>(set ` set (split_js comma val)) \<union> (set val \<inter> {comma})"
        using cover by simp
      then show "c = comma \<or> is_ws c" using a by auto
    qed
  next
    assume b: "\<forall>c\<in>set val. c = comma \<or> is_ws c"
    show "\<forall>p\<in>set (split_js comma val). \<forall>c\<in>set p. is_ws c"
    proof (intro ballI)
      fix p c assume p: "p \<in> set (split_js comma val)" and c: "c \<in> set p"
      then have "c \<in> set val" using cover by blast
      moreover have "c \<noteq> comma" using no[OF p] c by blast
      ultimately show "is_ws c" using b by blast
    qed
  qed
  finally show ?thesis .
qed

lemma skillsArray_members:
  assumes "s \<in> set (skillsArray val)"
  shows "s \<noteq> [] \<and> trim s = s \<and> comma \<notin> set s"
proof -
  from assms obtain p where p: "p \<in> set (split_js comma val)" and s: "s = trim p" "s \<noteq> []"
    by (auto simp: skillsArray_def)
  have "comma \<notin> set p"
    using p unfolding split_js_def by (rule split_acc_no_sep[of comma "[]", rotated]) simp
  then have "comma \<notin> set s" using set_trim[of p] s(1) by blast
  then show ?thesis using s by (simp add: trim_trim)
qed

text \<open>
  C4. The pieces of \<open>split\<close> are the stretches between the commas: joined with commas
  they give the input back, and none holds a comma. \<open>skillsArray\<close> is the list of the
  trimmed pieces that are not empty, in order; \<open>handleSkillsChange\<close> stores it. On a form
  whose three text fields are strings, validation then reports the error of \<open>skills\<close>
  exactly when that list is empty, which is when the input holds commas and white space
  only.
\<close>

theorem skills_normalization:
  assumes "map_of (formData st) ''job_title'' = Some (FStr jt)"
    and "map_of (formData st) ''company_name'' = Some (FStr cn)"
    and "map_of (formData st) ''location'' = Some (FStr loc)"
  shows "join_js comma (split_js comma val) = val \<and>
     (\<forall>p\<in>set (split_js comma val). comma \<notin> set p) \<and>
     skillsArray val = [trim p. p \<leftarrow> split_js comma val, trim p \<noteq> []] \<and>
     (\<forall>s\<in>set (skillsArray val). s \<noteq> [] \<and> trim s = s \<and> comma \<notin> set s) \<and>
     map_of (formData (handleSkillsChange val st)) ''skills'' = Some (FArr (skillsArray val)) \<and>
     (\<exists>ok st1. validateForm sn (handleSkillsChange val st) = Inr (ok, st1) \<and>
        (map_of (formErrors st1) ''skills'' =
           Some (lit ''At least one skill is required (comma-separated)'') \<longleftrightarrow>
         skillsArray val = []) \<and>
        (map_of (formErrors st1) ''skills'' = None \<longleftrightarrow> skillsArray val \<noteq> [])) \<and>
     (skillsArray val = [] \<longleftrightarrow> (\<forall>c\<in>set val. c = comma \<or> is_ws c))"
proof -
  let ?st = "handleSkillsChange val st"
  have j: "join_js comma (split_js comma val) = val"
    by (simp add: split_js_def join_split_acc)
  have n: "\<forall>p\<in>set (split_js comma val). comma \<notin> set p"
    unfolding split_js_def using split_acc_no_sep[of comma "[]"] by simp
  have d: "skillsArray val = [trim p. p \<leftarrow> split_js comma val, trim p \<noteq> []]"
    unfolding skillsArray_def by (rule filter_nonempty_map)
  have m: "\<forall>s\<in>set (skillsArray val). s \<noteq> [] \<and> trim s = s \<and> comma \<notin> set s"
    using skillsArray_members by blast
  have f: "map_of (formData ?st) ''skills'' = Some (FArr (skillsArray val))"
    by (simp add: handleSkillsChange_def map_of_update_same)
  have t: "map_of (formData ?st) ''job_title'' = Some (FStr jt)"
    "map_of (formData ?st) ''company_name'' = Some (FStr cn)"
    "map_of (formData ?st) ''location'' = Some (FStr loc)"
    using assms by (simp_all add: handleSkillsChange_def map_of_update_other)
  have len: "length_is_0 (map_of (formData ?st) ''skills'') = Inr (skillsArray val = [])"
    by (simp add: f)
  obtain ok st1 where v: "validateForm sn ?st = Inr (ok, st1)"
    using validateForm_returns[OF t len] by blast
  have e: "map_of (formErrors st1) ''skills'' =
      (if skillsArray val = []
       then Some (lit ''At least one skill is required (comma-separated)'') else None)"
    using validateForm_typed[OF t len v, of "''skills''"] by simp
  have e1: "map_of (formErrors st1) ''skills'' =
           Some (lit ''At least one skill is required (comma-separated)'') \<longleftrightarrow>
         skillsArray val = []"
    and e2: "map_of (formErrors st1) ''skills'' = None \<longleftrightarrow> skillsArray val \<noteq> []"
    by (simp_all add: e)
  have x: "\<exists>ok st1. validateForm sn ?st = Inr (ok, st1) \<and>
        (map_of (formErrors st1) ''skills'' =
           Some (lit ''At least one skill is required (comma-separated)'') \<longleftrightarrow>
         skillsArray val = []) \<and>
        (map_of (formErrors st1) ''skills'' = None \<longleftrightarrow> skillsArray val \<noteq> [])"
    by (rule exI[of _ ok], rule exI[of _ st1]) (intro conjI v e1 e2)
  show ?thesis
    by (intro conjI j n d m f x skillsArray_eq_Nil)
qed

lemma skillsArray_example: "skillsArray (lit ''Go, Docker ,,'') = [lit ''Go'', lit ''Docker'']"
  by (simp add: skillsArray_def split_js_def comma_def lit_def trim_def is_ws_def)

theorem skills_normalization_witness:
  "join_js comma (split_js comma (lit ''Go, Docker ,,'')) = lit ''Go, Docker ,,'' \<and>
   skillsArray (lit ''Go, Docker ,,'') = [lit ''Go'', lit ''Docker''] \<and>
   map_of (formData (handleSkillsChange (lit ''Go, Docker ,,'') filled)) ''skills'' =
     Some (FArr [lit ''Go'', lit ''Docker'']) \<and>
   (\<exists>ok st1. validateForm nan_of (handleSkillsChange (lit ''Go, Docker ,,'') filled) =
        Inr (ok, st1) \<and> map_of (formErrors st1) ''skills'' = None)"
proof -
  note t = skills_normalization[OF filled_fields(1-3), of "lit ''Go, Docker ,,''" nan_of]
  note a = t[THEN conjunct1]
  note f = t[THEN conjunct2, THEN conjunct2, THEN conjunct2, THEN conjunct2, THEN conjunct1]
  note x = t[THEN conjunct2, THEN conjunct2, THEN conjunct2, THEN conjunct2, THEN conjunct2,
      THEN conjunct1]
  from x obtain ok st1 where
    all: "validateForm nan_of (handleSkillsChange (lit ''Go, Docker ,,'') filled) = Inr (ok, st1) \<and>
      (map_of (formErrors st1) ''skills'' =
         Some (lit ''At least one skill is required (comma-separated)'') \<longleftrightarrow>
       skillsArray (lit ''Go, Docker ,,'') = []) \<and>
      (map_of (formErrors st1) ''skills'' = None \<longleftrightarrow>
       skillsArray (lit ''Go, Docker ,,'') \<noteq> [])"
    by (elim exE)
  note v = all[THEN conjunct1]
  note e = all[THEN conjunct2, THEN conjunct2]
  have "map_of (formErrors st1) ''skills'' = None"
    using e by (simp add: skillsArray_example)
  with v have "\<exists>ok st1. validateForm nan_of (handleSkillsChange (lit ''Go, Docker ,,'') filled) =
        Inr (ok, st1) \<and> map_of (formErrors st1) ''skills'' = None"
    by (intro exI conjI)
  then show ?thesis using a f skillsArray_example by simp
qed

section \<open>Claims on the Term Emphasizer\<close>

lemma rawResult_of_success:
  assumes "200 \<le> code" and "code \<le> 299"
  shows "rawResult (handleResponse
      (Response code (Data (outbound_success (term_emphasizer raw terms)))) st) = JStr raw"
proof (cases "raw = []")
  case True
  then show ?thesis
    using assms
    by (simp add: handleResponse_def outbound_success_def term_emphasizer_def js_or_def)
next
  case False
  then show ?thesis
    using assms
    by (simp add: handleResponse_def outbound_success_def term_emphasizer_def js_or_def)
qed

text \<open>
  C1. The plain rendering of the Term Emphasizer is the raw text, whatever the terms.
  When the backend answers with the outbound success of a generation result under a
  status from 200 to 299, the handler stores that raw text in \<open>rawResult\<close>, also at the
  end of a whole \<open>handleSubmit\<close>, and \<open>handleCopyToClipboard\<close> hands exactly it to the
  clipboard (nothing when the text is empty).
\<close>

theorem plain_rendering_is_raw_text:
  assumes "200 \<le> code" and "code \<le> 299"
  shows "emphasized_plain (term_emphasizer raw terms) = raw \<and>
     rawResult (handleResponse
       (Response code (Data (outbound_success (term_emphasizer raw terms)))) st) = JStr raw \<and>
     snd (handleCopyToClipboard written (handleResponse
       (Response code (Data (outbound_success (term_emphasizer raw terms)))) st)) =
       (if raw = [] then None else Some (JStr raw)) \<and>
     (validateForm sn st = Inr (True, st1) \<and>
      net (payload sn (formData st)) =
        Response code (Data (outbound_success (term_emphasizer raw terms))) \<longrightarrow>
      (\<exists>st'. handleSubmit sn net st = Inr (st', [payload sn (formData st)]) \<and>
         rawResult st' = JStr raw))"
proof -
  let ?out = "Response code (Data (outbound_success (term_emphasizer raw terms)))"
  have a: "emphasized_plain (term_emphasizer raw terms) = raw"
    by (simp add: term_emphasizer_def)
  have b: "\<And>s. rawResult (handleResponse ?out s) = JStr raw"
    by (rule rawResult_of_success[OF assms])
  have c: "snd (handleCopyToClipboard written (handleResponse ?out st)) =
       (if raw = [] then None else Some (JStr raw))"
    by (simp add: handleCopyToClipboard_def b)
  have d: "validateForm sn st = Inr (True, st1) \<and> net (payload sn (formData st)) = ?out \<longrightarrow>
      (\<exists>st'. handleSubmit sn net st = Inr (st', [payload sn (formData st)]) \<and>
         rawResult st' = JStr raw)"
    by (simp add: handleSubmit_def or_throw_def Let_def b)
  show ?thesis by (intro conjI a b c d)
qed

theorem plain_rendering_is_raw_text_witness:
  "(200::nat) \<le> 200 \<and> (200::nat) \<le> 299 \<and>
   validateForm nan_of filled = Inr (True, filled\<lparr>formErrors := []\<rparr>) \<and>
   (\<exists>st'. handleSubmit nan_of example_backend filled =
        Inr (st', [payload nan_of (formData filled)]) \<and>
      rawResult st' = JStr example_raw \<and>
      snd (handleCopyToClipboard True st') = Some (JStr example_raw))"
proof -
  have h: "(200::nat) \<le> 200" "(200::nat) \<le> 299" by simp_all
  note t = plain_rendering_is_raw_text[OF h, where raw = example_raw
      and terms = "[lit ''Go'', lit ''Docker'']" and sn = nan_of and st = filled
      and ?st1.0 = "filled\<lparr>formErrors := []\<rparr>" and net = example_backend]
  have n: "example_backend (payload nan_of (formData filled)) =
      Response 200 (Data (outbound_success
        (term_emphasizer example_raw [lit ''Go'', lit ''Docker''])))"
    by (simp add: example_backend_def)
  from t[THEN conjunct2, THEN conjunct2, THEN conjunct2] validateForm_filled n
  obtain st' where s: "handleSubmit nan_of example_backend filled =
        Inr (st', [payload nan_of (formData filled)])" "rawResult st' = JStr example_raw"
    by blast
  have ne: "example_raw \<noteq> []" by (simp add: example_raw_def lit_eq_Nil)
  have "snd (handleCopyToClipboard True st') = Some (JStr example_raw)"
    using s(2) ne by (simp add: handleCopyToClipboard_def)
  then show ?thesis using h validateForm_filled s by blast
qed

lemma last_unit_Cons: "last_unit (c # xs) = (if xs = [] then Some c else last_unit xs)"
  by (cases "rev xs") (auto simp: last_unit_def)

lemma last_unit_append: "ys \<noteq> [] \<Longrightarrow> last_unit (xs @ ys) = last_unit ys"
  by (cases "rev ys") (auto simp: last_unit_def)

lemma unit_before_Cons: "unit_before prev (c # xs) = unit_before (Some c) xs"
  by (simp add: unit_before_def last_unit_Cons)

lemma unit_before_append:
  "m \<noteq> [] \<Longrightarrow> unit_before prev (m @ xs) = unit_before (last_unit m) xs"
  by (simp add: unit_before_def last_unit_append)

lemma longest_match_Some:
  "longest_match prev cands text = Some n \<Longrightarrow>
     (\<exists>t\<in>set cands. matches_at prev t text \<and> length t = n) \<and>
     (\<forall>t\<in>set cands. matches_at prev t text \<longrightarrow> length t \<le> n)"
proof (induction cands arbitrary: n)
  case Nil
  then show ?case by simp
next
  case (Cons t ts)
  show ?case
  proof (cases "longest_match prev ts text")
    case None
    have no: "\<forall>u\<in>set ts. \<not> matches_at prev u text"
      using None
    proof (induction ts)
      case Nil
      then show ?case by simp
    next
      case (Cons u us)
      then show ?case by (auto split: option.splits if_splits)
    qed
    from None Cons.prems have "matches_at prev t text" and "n = length t"
      by (auto split: if_splits)
    then show ?thesis using no by auto
  next
    case (Some k)
    note ih = Cons.IH[OF Some]
    show ?thesis
    proof (cases "matches_at prev t text \<and> k < length t")
      case True
      with Some Cons.prems have "n = length t" by simp
      then show ?thesis using True ih by fastforce
    next
      case False
      with Some Cons.prems have "n = k" by auto
      then show ?thesis using False ih by fastforce
    qed
  qed
qed

lemma longest_match_length:
  assumes "longest_match prev cands (c # cs) = Some n"
  shows "0 < n \<and> n - 1 \<le> length cs \<and> length (c # take (n - 1) cs) = n"
proof -
  from longest_match_Some[OF assms] obtain t where
    "matches_at prev t (c # cs)" "length t = n" by blast
  then have "t \<noteq> []" "length t \<le> length (c # cs)" by (simp_all add: matches_at_def)
  then show ?thesis using \<open>length t = n\<close> by (cases t) auto
qed

lemma covers_scan: "concat (map covers (scan prev cands text)) = text"
  by (induction prev cands "text" rule: scan.induct) (auto split: option.splits)

lemma scan_bold_piece:
  "scan prev cands text = pre @ Bold s # post \<Longrightarrow>
     (\<exists>t\<in>set cands. length t = length s \<and>
        matches_at (unit_before prev (concat (map covers pre))) t
          (s @ concat (map covers post))) \<and>
     (\<forall>t\<in>set cands.
        matches_at (unit_before prev (concat (map covers pre))) t
          (s @ concat (map covers post)) \<longrightarrow> length t \<le> length s)"
proof (induction prev cands "text" arbitrary: pre rule: scan.induct)
  case (1 prev cands)
  then show ?case by simp
next
  case (2 prev cands c cs)
  show ?case
  proof (cases "longest_match prev cands (c # cs)")
    case None
    with "2.prems" have eq: "Plain c # scan (Some c) cands cs = pre @ Bold s # post"
      by simp
    then obtain pre' where pre: "pre = Plain c # pre'"
      and rest: "scan (Some c) cands cs = pre' @ Bold s # post"
      by (cases pre) auto
    show ?thesis
      using "2.IH"(1)[OF None rest] by (simp add: pre unit_before_Cons)
  next
    case (Some n)
    let ?m = "c # take (n - 1) cs"
    let ?rest = "drop (n - 1) cs"
    from Some "2.prems" have eq: "Bold ?m # scan (last_unit ?m) cands ?rest = pre @ Bold s # post"
      by simp
    show ?thesis
    proof (cases pre)
      case Nil
      with eq have s: "s = ?m" and post: "post = scan (last_unit ?m) cands ?rest"
        by auto
      have whole: "s @ concat (map covers post) = c # cs"
        by (simp add: s post covers_scan)
      have len: "length s = n"
        using longest_match_length[OF Some] s by simp
      show ?thesis
        using longest_match_Some[OF Some]
        unfolding Nil whole by (simp add: unit_before_def len) blast
    next
      case (Cons p pre')
      with eq have p: "p = Bold ?m"
        and rest: "scan (last_unit ?m) cands ?rest = pre' @ Bold s # post"
        by auto
      have "unit_before prev (?m @ concat (map covers pre')) =
          unit_before (last_unit ?m) (concat (map covers pre'))"
        by (rule unit_before_append) simp
      then show ?thesis
        using "2.IH"(2)[OF Some rest] by (simp add: Cons p)
    qed
  qed
qed

lemma first_unit_append: "s \<noteq> [] \<Longrightarrow> first_unit (s @ xs) = first_unit s"
  by (cases s) auto

text \<open>The scan of the example of the spec: one bold piece, on Google Cloud.\<close>

lemma scan_example:
  "scan None (candidates [lit ''Go'', lit ''Google Cloud''])
     (lit ''Experience with Google Cloud required'') =
   map Plain (lit ''Experience with '') @ Bold (lit ''Google Cloud'') #
   map Plain (lit '' required'')"
  by (simp add: candidates_def lit_def fold_case_def matches_at_def is_word_def
      last_unit_def)

text \<open>
  C2. Every bold piece of the scan is a longest match: the pieces before it, the piece
  and the pieces after it cover the text in order, so no matched span holds another
  one; the piece is a candidate up to case; it neither begins nor ends in the middle of
  a word; and no candidate that matches at its position is longer. With the skills Go
  and Google Cloud and the text of the spec, only Google Cloud is wrapped.
\<close>

theorem longest_match_first:
  "(scan prev cands text = pre @ Bold s # post \<longrightarrow>
      text = concat (map covers pre) @ s @ concat (map covers post) \<and>
      s \<noteq> [] \<and> map fold_case s \<in> set cands \<and>
      \<not> mid_word (unit_before prev (concat (map covers pre))) (first_unit s) \<and>
      \<not> mid_word (last_unit s) (first_unit (concat (map covers post))) \<and>
      (\<forall>t\<in>set cands.
         matches_at (unit_before prev (concat (map covers pre))) t
           (s @ concat (map covers post)) \<longrightarrow> length t \<le> length s)) \<and>
   emphasized_html (term_emphasizer (lit ''Experience with Google Cloud required'')
       [lit ''Go'', lit ''Google Cloud'']) =
     lit ''Experience with <b>Google Cloud</b> required''"
proof (intro conjI impI)
  assume a: "scan prev cands text = pre @ Bold s # post"
  let ?before = "unit_before prev (concat (map covers pre))"
  let ?after = "concat (map covers post)"
  from scan_bold_piece[OF a] obtain t where t: "t \<in> set cands" "length t = length s"
      "matches_at ?before t (s @ ?after)"
    and longest: "\<forall>t\<in>set cands. matches_at ?before t (s @ ?after) \<longrightarrow> length t \<le> length s"
    by blast
  have "concat (map covers (scan prev cands text)) = text" by (rule covers_scan)
  then show "text = concat (map covers pre) @ s @ concat (map covers post)"
    by (simp add: a)
  from t(3) have "t \<noteq> []" by (simp add: matches_at_def)
  with t(2) show ne: "s \<noteq> []" by auto
  from t(2,3) have "map fold_case s = t" by (simp add: matches_at_def)
  with t(1) show "map fold_case s \<in> set cands" by simp
  from t(2,3) ne show "\<not> mid_word ?before (first_unit s)"
    by (simp add: matches_at_def first_unit_append)
  from t(2,3) show "\<not> mid_word (last_unit s) (first_unit ?after)"
    by (simp add: matches_at_def)
  from longest show "\<forall>t\<in>set cands. matches_at ?before t (s @ ?after) \<longrightarrow> length t \<le> length s" .
next
  show "emphasized_html (term_emphasizer (lit ''Experience with Google Cloud required'')
       [lit ''Go'', lit ''Google Cloud'']) =
     lit ''Experience with <b>Google Cloud</b> required''"
    by (simp add: term_emphasizer_def scan_example) (simp add: lit_def escape_def)
qed

theorem longest_match_first_witness:
  "scan None (candidates [lit ''Go'', lit ''Google Cloud''])
     (lit ''Experience with Google Cloud required'') =
   map Plain (lit ''Experience with '') @ Bold (lit ''Google Cloud'') #
   map Plain (lit '' required'') \<and>
   map fold_case (lit ''Google Cloud'') \<in> set (candidates [lit ''Go'', lit ''Google Cloud'']) \<and>
   \<not> mid_word (Some 32) (first_unit (lit ''Google Cloud'')) \<and>
   \<not> mid_word (last_unit (lit ''Google Cloud'')) (Some 32) \<and>
   \<not> matches_at (Some 32) (lit ''go'') (lit ''Google Cloud required'')"
proof -
  note t = longest_match_first[of None "candidates [lit ''Go'', lit ''Google Cloud'']"
      "lit ''Experience with Google Cloud required''" "map Plain (lit ''Experience with '')"
      "lit ''Google Cloud''" "map Plain (lit '' required'')",
      THEN conjunct1, rule_format, OF scan_example]
  have pre: "unit_before None (concat (map covers (map Plain (lit ''Experience with '')))) =
      Some 32"
    by (simp add: unit_before_def last_unit_def lit_def)
  have post: "first_unit (concat (map covers (map Plain (lit '' required'')))) = Some 32"
    by (simp add: lit_def)
  have go: "\<not> matches_at (Some 32) (lit ''go'') (lit ''Google Cloud required'')"
    by (simp add: matches_at_def lit_def fold_case_def is_word_def last_unit_def)
  show ?thesis
    using t[THEN conjunct2, THEN conjunct2, THEN conjunct1]
      t[THEN conjunct2, THEN conjunct2, THEN conjunct2, THEN conjunct1]
      t[THEN conjunct2, THEN conjunct2, THEN conjunct2, THEN conjunct2, THEN conjunct1]
      scan_example go
    unfolding pre post by (intro conjI)
qed

section \<open>Claims on the deadline\<close>

text \<open>The calendar and the ISO rendering on known dates, among them a leap day.\<close>

lemma civil_from_days_examples:
  "civil_from_days 0 = (1970, 1, 1) \<and> civil_from_days (- 1) = (1969, 12, 31) \<and>
   civil_from_days 19782 = (2024, 2, 29) \<and> civil_from_days 19783 = (2024, 3, 1) \<and>
   civil_from_days 20425 = (2025, 12, 3)"
  by code_simp

lemma toISOString_example:
  "toISOString 1762128000123 = Inr (lit ''2025-11-03T00:00:00.123Z'')"
  by code_simp

lemma set_digits: "set (digits fuel n) \<subseteq> {48..57}"
proof (induction fuel arbitrary: n)
  case 0
  then show ?case by simp
next
  case (Suc fuel)
  have "n mod 10 < 10" by simp
  then have "48 + n mod 10 \<in> {48..57::nat}" by auto
  then show ?case using Suc[of "n div 10"] by auto
qed

lemma set_pad: "set (pad w n) \<subseteq> {48..57}"
  using set_digits by (auto simp: pad_def decimal_def)

lemma no_T_in_date: "84 \<notin> set (date_string day)"
proof -
  obtain y m d where c: "civil_from_days day = (y, m, d)" by (cases "civil_from_days day")
  have "84 \<notin> set (pad w n)" for w n using set_pad[of w n] by auto
  then show ?thesis by (simp add: date_string_def c year_string_def)
qed

lemma split_acc_append:
  "sep \<notin> set a \<Longrightarrow> split_acc sep cur (a @ sep # b) = (cur @ a) # split_acc sep [] b"
  by (induction a arbitrary: cur) auto

lemma before_T_date: "before_T (date_string day @ 84 # rest) = date_string day"
  by (simp add: before_T_def split_js_def split_acc_append[OF no_T_in_date])

lemma Day_plus_30: "Day (now + 30 * msPerDay) = Day now + 30"
  by (simp add: Day_def msPerDay_def)

lemma toISOString_date:
  "\<bar>t\<bar> \<le> 8640000000000000 \<Longrightarrow>
     \<exists>iso. toISOString t = Inr iso \<and> before_T iso = date_string (Day t)"
  by (simp add: toISOString_def before_T_date)

lemma cleared_formData:
  "formData cleared = AList.update ''deadline'' (FStr []) filled_form"
  by (simp add: cleared_def handleInputChange_def processedValue_def filled_def)

text \<open>
  C8, as the spec states it: a submission whose deadline is absent gets the date of the
  submission plus 30 days. \<open>handleSubmit\<close> has no default: the cleared form passes
  validation and its payload carries the empty deadline.
\<close>

theorem absent_deadline_counterexample:
  "map_of (formData cleared) ''deadline'' = Some (FStr []) \<and>
   validateForm nan_of cleared = Inr (True, cleared\<lparr>formErrors := []\<rparr>) \<and>
   map_sum id snd (handleSubmit nan_of offline cleared) =
     Inr [payload nan_of (formData cleared)] \<and>
   map_of (payload nan_of (formData cleared)) ''deadline'' = Some (FStr [])"
proof -
  have v: "validateForm nan_of cleared = Inr (True, cleared\<lparr>formErrors := []\<rparr>)"
    by (simp add: cleared_formData filled_form_def validateForm_def or_throw_def Let_def
        set_if_def trim_examples example_truths lit_eq_Nil)
  have d: "map_of (formData cleared) ''deadline'' = Some (FStr [])"
    by (simp add: cleared_formData map_of_update_same)
  have p: "map_of (payload nan_of (formData cleared)) ''deadline'' = Some (FStr [])"
    by (simp add: payload_def map_of_update_other d)
  have s: "map_sum id snd (handleSubmit nan_of offline cleared) =
     Inr [payload nan_of (formData cleared)]"
    using v by (simp add: handleSubmit_def or_throw_def Let_def)
  show ?thesis by (intro conjI d v s p)
qed

text \<open>
  C8, amended: the default is set when the form is mounted and when it is reset, not
  at the submission. At a time \<open>now\<close> whose date 30 days later is a valid date,
  \<open>handleResetForm\<close> sets the deadline to the UTC calendar date 30 days after the day of
  \<open>now\<close>, and so does the effect on mount where local time has a constant offset. A
  submission sends the deadline of the form as it is.
\<close>

theorem default_deadline:
  "(\<bar>now + 30 * msPerDay\<bar> \<le> 8640000000000000 \<longrightarrow>
      (\<exists>st'. handleResetForm now st = Inr st' \<and>
         map_of (formData st') ''deadline'' = Some (FStr (date_string (Day now + 30))))) \<and>
   (\<bar>now + 30 * msPerDay\<bar> \<le> 8640000000000000 \<and> (\<forall>t u. tza t u = offset) \<longrightarrow>
      (\<exists>st'. mount_effect tza now st = Inr st' \<and>
         map_of (formData st') ''deadline'' = Some (FStr (date_string (Day now + 30))))) \<and>
   map_of (payload sn fd) ''deadline'' = map_of fd ''deadline'' \<and>
   (validateForm sn st = Inr (True, st1) \<longrightarrow>
      map_sum id snd (handleSubmit sn net st) = Inr [payload sn (formData st)])"
proof (intro conjI impI)
  assume r: "\<bar>now + 30 * msPerDay\<bar> \<le> 8640000000000000"
  from toISOString_date[OF r] obtain iso where
    iso: "toISOString (now + 30 * msPerDay) = Inr iso"
      "before_T iso = date_string (Day (now + 30 * msPerDay))"
    by blast
  have eq: "now + 30 * 24 * 60 * 60 * 1000 = now + 30 * msPerDay"
    by (simp add: msPerDay_def)
  show "\<exists>st'. handleResetForm now st = Inr st' \<and>
         map_of (formData st') ''deadline'' = Some (FStr (date_string (Day now + 30)))"
    unfolding handleResetForm_def eq
    by (simp add: iso or_throw_def blank_form_def Day_plus_30)
next
  assume "\<bar>now + 30 * msPerDay\<bar> \<le> 8640000000000000 \<and> (\<forall>t u. tza t u = offset)"
  then have r: "\<bar>now + 30 * msPerDay\<bar> \<le> 8640000000000000" and z: "\<And>t u. tza t u = offset"
    by simp_all
  from toISOString_date[OF r] obtain iso where
    iso: "toISOString (now + 30 * msPerDay) = Inr iso"
      "before_T iso = date_string (Day (now + 30 * msPerDay))"
    by blast
  show "\<exists>st'. mount_effect tza now st = Inr st' \<and>
         map_of (formData st') ''deadline'' = Some (FStr (date_string (Day now + 30)))"
    by (simp add: mount_effect_def Let_def z iso or_throw_def map_of_update_same Day_plus_30)
next
  show "map_of (payload sn fd) ''deadline'' = map_of fd ''deadline''"
    by (simp add: payload_def map_of_update_other)
next
  assume "validateForm sn st = Inr (True, st1)"
  then show "map_sum id snd (handleSubmit sn net st) = Inr [payload sn (formData st)]"
    by (simp add: handleSubmit_def or_throw_def Let_def)
qed

lemma date_example: "date_string (Day 1762128000123 + 30) = lit ''2025-12-03''"
  by code_simp

theorem default_deadline_witness:
  "\<bar>1762128000123 + 30 * msPerDay\<bar> \<le> 8640000000000000 \<and>
   (\<exists>st'. handleResetForm 1762128000123 filled = Inr st' \<and>
      map_of (formData st') ''deadline'' = Some (FStr (lit ''2025-12-03''))) \<and>
   (\<exists>st'. mount_effect plus_five 1762128000123 initial = Inr st' \<and>
      map_of (formData st') ''deadline'' = Some (FStr (lit ''2025-12-03'')))"
proof -
  have r: "\<bar>1762128000123 + 30 * msPerDay\<bar> \<le> 8640000000000000"
    by (simp add: msPerDay_def)
  have z: "\<forall>t u. plus_five t u = 18000000" by (simp add: plus_five_def)
  note t = default_deadline[of 1762128000123 _ plus_five 18000000]
  have a: "\<exists>st'. handleResetForm 1762128000123 filled = Inr st' \<and>
      map_of (formData st') ''deadline'' = Some (FStr (lit ''2025-12-03''))"
    using t[of filled, THEN conjunct1, rule_format, OF r] by (simp only: date_example)
  have b: "\<exists>st'. mount_effect plus_five 1762128000123 initial = Inr st' \<and>
      map_of (formData st') ''deadline'' = Some (FStr (lit ''2025-12-03''))"
    using t[of initial, THEN conjunct2, THEN conjunct1, rule_format, OF conjI[OF r z]]
    by (simp only: date_example)
  show ?thesis by (intro conjI r a b)
qed

end
